theory Spec2Isabelle
  imports Main "HOL-Library.AList"
begin

section \<open>const.py\<close>

text \<open>
  \<^verbatim>\<open>datetime.timedelta\<close> keeps a duration normalised as days, seconds (0 to 86399) and
  microseconds, and compares durations lexicographically on these three fields.
  \<^verbatim>\<open>timedelta(seconds=n)\<close> is the only constructor call of const.py.
\<close>

record timedelta =
  days :: int
  seconds :: int
  microseconds :: int

definition timedelta_of_seconds :: "int \<Rightarrow> timedelta" where
  "timedelta_of_seconds n = \<lparr>days = n div 86400, seconds = n mod 86400, microseconds = 0\<rparr>"

definition total_seconds :: "timedelta \<Rightarrow> int" where
  "total_seconds t = days t * 86400 + seconds t"

definition timedelta_less :: "timedelta \<Rightarrow> timedelta \<Rightarrow> bool" where
  "timedelta_less a b =
     (if days a = days b
      then (if seconds a = seconds b then microseconds a < microseconds b
            else seconds a < seconds b)
      else days a < days b)"

definition SYSVAR_SCAN_INTERVAL :: timedelta where
  "SYSVAR_SCAN_INTERVAL = timedelta_of_seconds 30"

definition MASTER_SCAN_INTERVAL :: timedelta where
  "MASTER_SCAN_INTERVAL = timedelta_of_seconds 300"

text \<open>
  The host platforms of const.py (\<^verbatim>\<open>class Platform(StrEnum)\<close>), in declaration order,
  which is the order in which iterating the enumeration yields them.
\<close>

datatype Platform =
    AIR_QUALITY | ALARM_CONTROL_PANEL | BINARY_SENSOR | BUTTON | CALENDAR | CAMERA
  | CLIMATE | COVER | DEVICE_TRACKER | FAN | GEO_LOCATION | HUMIDIFIER
  | IMAGE_PROCESSING | LIGHT | LOCK | MAILBOX | MEDIA_PLAYER | NOTIFY | NUMBER
  | REMOTE | SCENE | SELECT | SENSOR | SIREN | STT | SWITCH | TTS | VACUUM | UPDATE
  | WATER_HEATER | WEATHER

fun Platform_value :: "Platform \<Rightarrow> string" where
  "Platform_value AIR_QUALITY = ''air_quality''"
| "Platform_value ALARM_CONTROL_PANEL = ''alarm_control_panel''"
| "Platform_value BINARY_SENSOR = ''binary_sensor''"
| "Platform_value BUTTON = ''button''"
| "Platform_value CALENDAR = ''calendar''"
| "Platform_value CAMERA = ''camera''"
| "Platform_value CLIMATE = ''climate''"
| "Platform_value COVER = ''cover''"
| "Platform_value DEVICE_TRACKER = ''device_tracker''"
| "Platform_value FAN = ''fan''"
| "Platform_value GEO_LOCATION = ''geo_location''"
| "Platform_value HUMIDIFIER = ''humidifier''"
| "Platform_value IMAGE_PROCESSING = ''image_processing''"
| "Platform_value LIGHT = ''light''"
| "Platform_value LOCK = ''lock''"
| "Platform_value MAILBOX = ''mailbox''"
| "Platform_value MEDIA_PLAYER = ''media_player''"
| "Platform_value NOTIFY = ''notify''"
| "Platform_value NUMBER = ''number''"
| "Platform_value REMOTE = ''remote''"
| "Platform_value SCENE = ''scene''"
| "Platform_value SELECT = ''select''"
| "Platform_value SENSOR = ''sensor''"
| "Platform_value SIREN = ''siren''"
| "Platform_value STT = ''stt''"
| "Platform_value SWITCH = ''switch''"
| "Platform_value TTS = ''tts''"
| "Platform_value VACUUM = ''vacuum''"
| "Platform_value UPDATE = ''update''"
| "Platform_value WATER_HEATER = ''water_heater''"
| "Platform_value WEATHER = ''weather''"

definition Platform_members :: "Platform list" where
  "Platform_members =
     [AIR_QUALITY, ALARM_CONTROL_PANEL, BINARY_SENSOR, BUTTON, CALENDAR, CAMERA, CLIMATE,
      COVER, DEVICE_TRACKER, FAN, GEO_LOCATION, HUMIDIFIER, IMAGE_PROCESSING, LIGHT, LOCK,
      MAILBOX, MEDIA_PLAYER, NOTIFY, NUMBER, REMOTE, SCENE, SELECT, SENSOR, SIREN, STT,
      SWITCH, TTS, VACUUM, UPDATE, WATER_HEATER, WEATHER]"

text \<open>
  A member of the backend's enumeration \<^verbatim>\<open>HmPlatform\<close> is determined by its string value
  (an enumeration has one member for each value). Which members exist, and which of them are
  in \<^verbatim>\<open>AVAILABLE_HM_PLATFORMS\<close>, is decided by the backend library.
\<close>

datatype HmPlatform = HmPlatform (platform_value: string)

text \<open>\<^verbatim>\<open>_get_hmip_local_platforms\<close>, with the backend's tuple of platforms as its input.\<close>

definition get_hmip_local_platforms :: "HmPlatform list \<Rightarrow> string list" where
  "get_hmip_local_platforms available =
     (let platforms = map Platform_value Platform_members;
          hm_platforms = map platform_value available
      in filter (\<lambda>hm_platform. hm_platform \<in> set platforms) hm_platforms)"

section \<open>Values, errors and effects\<close>

text \<open>
  The configuration mapping is \<^verbatim>\<open>Mapping[str, Any]\<close>. Its values are the ones JSON-like
  configuration data is built from: \<^verbatim>\<open>None\<close>, booleans, integers, strings and nested
  dictionaries with string keys (a dictionary is an association list in insertion order).
\<close>

datatype pyval =
    PNone
  | PBool bool
  | PInt int
  | PStr string
  | PDict "(string \<times> pyval) list"

text \<open>
  The exceptions the adapter's code can end with. \<open>BackendFailure\<close> carries whatever the
  backend library raised; \<open>PyException\<close> is Python's builtin \<^verbatim>\<open>Exception\<close> with its
  message. The adapter defines no exception class of its own.
\<close>

datatype 'x error =
    KeyError string
  | TypeError
  | PyException string
  | BackendFailure 'x

definition bind_result :: "'e + 'a \<Rightarrow> ('a \<Rightarrow> 'e + 'b) \<Rightarrow> 'e + 'b" where
  "bind_result r f = (case r of Inl e \<Rightarrow> Inl e | Inr v \<Rightarrow> f v)"

text \<open>\<^verbatim>\<open>d[k]\<close> and \<^verbatim>\<open>d.get(k)\<close> on a dictionary.\<close>

definition py_getitem :: "(string \<times> pyval) list \<Rightarrow> string \<Rightarrow> 'x error + pyval" where
  "py_getitem d k = (case map_of d k of None \<Rightarrow> Inl (KeyError k) | Some v \<Rightarrow> Inr v)"

definition py_get :: "(string \<times> pyval) list \<Rightarrow> string \<Rightarrow> pyval" where
  "py_get d k = (case map_of d k of None \<Rightarrow> PNone | Some v \<Rightarrow> v)"

text \<open>
  Python's \<^verbatim>\<open>==\<close> against a string constant and against an integer constant. A boolean is
  an integer in Python (\<^verbatim>\<open>False == 0\<close>, \<^verbatim>\<open>True == 1\<close>).
\<close>

fun py_eq_str :: "pyval \<Rightarrow> string \<Rightarrow> bool" where
  "py_eq_str (PStr t) s = (t = s)"
| "py_eq_str _ s = False"

fun py_eq_int :: "pyval \<Rightarrow> int \<Rightarrow> bool" where
  "py_eq_int (PInt m) n = (m = n)"
| "py_eq_int (PBool b) n = ((if b then 1 else 0) = n)"
| "py_eq_int _ n = False"

text \<open>
  What an operation does besides returning: the log records it writes, the backend
  coroutines it awaits, and the periodic listeners it registers with the host's timer
  (\<^verbatim>\<open>async_track_time_interval\<close>, which the sources name in comments only), in order.
\<close>

datatype log_level = DEBUG | INFO | EXCEPTION

datatype backend_call =
    GetCentral
  | Start
  | Stop
  | FetchSysvarData
  | FetchProgramData
  | RefreshEntityData

datatype event =
    Log log_level string "pyval list"
  | Await backend_call
  | TrackTimeInterval string timedelta

definition ATTR_INSTANCE_NAME :: string where "ATTR_INSTANCE_NAME = ''instance_name''"
definition ATTR_INTERFACE :: string where "ATTR_INTERFACE = ''interface''"
definition ATTR_PATH :: string where "ATTR_PATH = ''path''"

text \<open>
  Modelled from the spec: the key constants imported from the backend library's constants
  module (\<^verbatim>\<open>ATTR_HOST\<close> and the others) are missing from the sources; their values are the
  keys of the configuration mapping the spec records as the external interface.
\<close>

definition ATTR_HOST :: string where "ATTR_HOST = ''host''"
definition ATTR_USERNAME :: string where "ATTR_USERNAME = ''username''"
definition ATTR_PASSWORD :: string where "ATTR_PASSWORD = ''password''"
definition ATTR_TLS :: string where "ATTR_TLS = ''tls''"
definition ATTR_VERIFY_TLS :: string where "ATTR_VERIFY_TLS = ''verify_tls''"
definition ATTR_CALLBACK_HOST :: string where "ATTR_CALLBACK_HOST = ''callback_host''"
definition ATTR_CALLBACK_PORT :: string where "ATTR_CALLBACK_PORT = ''callback_port''"
definition ATTR_JSON_PORT :: string where "ATTR_JSON_PORT = ''json_port''"
definition ATTR_PORT :: string where "ATTR_PORT = ''port''"

section \<open>The backend library, as far as the adapter touches it\<close>

text \<open>
  The keyword arguments of the backend's \<^verbatim>\<open>InterfaceConfig\<close> and \<^verbatim>\<open>CentralConfig\<close>
  constructors, as \<^verbatim>\<open>_async_create_central\<close> passes them.
\<close>

record InterfaceConfig =
  arg_central_name :: pyval
  arg_interface :: string
  arg_port :: pyval
  arg_path :: pyval

record CentralConfig =
  arg_name :: pyval
  arg_storage_folder :: string
  arg_host :: pyval
  arg_username :: pyval
  arg_password :: pyval
  arg_central_id :: string
  arg_tls :: pyval
  arg_verify_tls :: pyval
  arg_json_port :: pyval
  arg_callback_host :: pyval
  arg_callback_port :: pyval
  arg_default_callback_port :: int
  arg_interface_configs :: "InterfaceConfig set"

text \<open>
  The three bound methods of a control unit that \<^verbatim>\<open>async_init_central\<close> hands to the
  central unit.
\<close>

datatype callback =
    async_callback_entity_event
  | async_callback_system_event
  | async_callback_ha_event

text \<open>
  The central unit: the attributes the adapter reads (\<^verbatim>\<open>name\<close>, \<^verbatim>\<open>model\<close>,
  \<^verbatim>\<open>version\<close>) and the three callback attributes it writes; the adapter touches no other
  attribute of it. A central unit is an ordinary object and so is true in a boolean test:
  \<^verbatim>\<open>if self._central:\<close> and \<^verbatim>\<open>if self._central is not None:\<close> decide alike.
\<close>

record CentralUnit =
  name :: string
  model :: string
  version :: string
  callback_entity_event :: "callback option"
  callback_system_event :: "callback option"
  callback_ha_event :: "callback option"

text \<open>
  The parts of the backend library that are not in the sources are parameters: its two
  constants, its tuple of entity platforms, and what \<^verbatim>\<open>CentralConfig(...).get_central()\<close>
  gives for a configuration (a central unit, or a failure it raises).
\<close>

record 'x backend =
  IP_ANY_V4 :: string
  PORT_ANY :: int
  AVAILABLE_HM_PLATFORMS :: "HmPlatform list"
  get_central :: "CentralConfig \<Rightarrow> 'x + CentralUnit"

definition HMIP_LOCAL_PLATFORMS :: "'x backend \<Rightarrow> string list" where
  "HMIP_LOCAL_PLATFORMS B = get_hmip_local_platforms (AVAILABLE_HM_PLATFORMS B)"

text \<open>
  The backend's \<^verbatim>\<open>HmEntityUsage\<close>: the adapter names one member, and every other member
  is some other usage.
\<close>

datatype HmEntityUsage = ENTITY_NO_CREATE | OtherUsage string

text \<open>Entities and hub entities, with the attributes the adapter reads.\<close>

record BaseEntity =
  unique_identifier :: string
  usage :: HmEntityUsage
  platform :: HmPlatform

record HmBaseHubEntity =
  hub_unique_identifier :: string
  hub_platform :: HmPlatform

text \<open>A hub is a handle the scheduler keeps and calls; the adapter never looks inside.\<close>

datatype HmHub = HmHub string

section \<open>control\_unit.py: the objects\<close>

record ControlConfig =
  entry_id :: string
  data :: "(string \<times> pyval) list"
  default_callback_port :: int

record BaseControlUnit =
  self_entry_id :: string
  self_config_data :: "(string \<times> pyval) list"
  self_default_callback_port :: int
  self_instance_name :: pyval
  self_central :: "CentralUnit option"

text \<open>
  A scheduler holds a reference to its control unit, and the control unit holds its
  scheduler: the reference is an address, resolved through the store of control units.
\<close>

type_synonym ref = nat

record HmScheduler =
  sched_control :: ref
  sched_hm_hub :: HmHub

record ControlUnit = BaseControlUnit +
  self_active_hm_entities :: "(string \<times> BaseEntity) list"
  self_active_hm_hub_entities :: "(string \<times> HmBaseHubEntity) list"
  self_scheduler :: "HmScheduler option"

type_synonym store = "ref \<Rightarrow> ControlUnit"

section \<open>control\_unit.py: BaseControlUnit\<close>

definition BaseControlUnit_init :: "ControlConfig \<Rightarrow> 'x error + BaseControlUnit" where
  "BaseControlUnit_init control_config =
     bind_result (py_getitem (data control_config) ATTR_INSTANCE_NAME) (\<lambda>instance_name.
       Inr \<lparr>self_entry_id = entry_id control_config,
            self_config_data = data control_config,
            self_default_callback_port = default_callback_port control_config,
            self_instance_name = instance_name,
            self_central = None\<rparr>)"

text \<open>The property \<^verbatim>\<open>central\<close>.\<close>

definition central :: "'a BaseControlUnit_scheme \<Rightarrow> 'x error + CentralUnit" where
  "central self =
     (case self_central self of
        Some c \<Rightarrow> Inr c
      | None \<Rightarrow> Inl (PyException ''homematicip_local.central not initialized''))"

text \<open>
  The loop of \<^verbatim>\<open>_async_create_central\<close> over the interface names. An interface entry has
  to be a dictionary: subscripting anything else with the key \<^verbatim>\<open>port\<close> is a type error.
\<close>

fun interface_config :: "pyval \<Rightarrow> string \<Rightarrow> pyval \<Rightarrow> 'x error + InterfaceConfig" where
  "interface_config instance_name interface_name (PDict interface) =
     bind_result (py_getitem interface ATTR_PORT) (\<lambda>port.
       Inr \<lparr>arg_central_name = instance_name,
            arg_interface = interface_name,
            arg_port = port,
            arg_path = py_get interface ATTR_PATH\<rparr>)"
| "interface_config instance_name interface_name _ = Inl TypeError"

fun interface_loop ::
  "pyval \<Rightarrow> (string \<times> pyval) list \<Rightarrow> string list \<Rightarrow> InterfaceConfig set
     \<Rightarrow> 'x error + InterfaceConfig set" where
  "interface_loop instance_name interfaces [] interface_configs = Inr interface_configs"
| "interface_loop instance_name interfaces (interface_name # rest) interface_configs =
     bind_result (py_getitem interfaces interface_name) (\<lambda>interface.
     bind_result (interface_config instance_name interface_name interface) (\<lambda>ic.
       interface_loop instance_name interfaces rest (insert ic interface_configs)))"

text \<open>
  Iterating the value under \<^verbatim>\<open>interface\<close>: a dictionary yields its keys; the empty string
  yields nothing; a non-empty string yields characters, and subscripting the string with one
  is a type error; the other values are not iterable.
\<close>

fun interface_configs_of :: "pyval \<Rightarrow> pyval \<Rightarrow> 'x error + InterfaceConfig set" where
  "interface_configs_of instance_name (PDict interfaces) =
     interface_loop instance_name interfaces (map fst interfaces) {}"
| "interface_configs_of instance_name (PStr s) = (if s = [] then Inr {} else Inl TypeError)"
| "interface_configs_of instance_name _ = Inl TypeError"

text \<open>
  The call of the \<^verbatim>\<open>CentralConfig\<close> constructor in \<^verbatim>\<open>_async_create_central\<close>: the
  interface loop, the last ten characters of the entry id, then the keyword arguments in
  the order they are written.
\<close>

definition create_central_config ::
  "'x backend \<Rightarrow> 'a BaseControlUnit_scheme \<Rightarrow> 'x error + CentralConfig" where
  "create_central_config B self =
     (let d = self_config_data self in
      bind_result (py_getitem d ATTR_INTERFACE) (\<lambda>interfaces.
      bind_result (interface_configs_of (self_instance_name self) interfaces)
        (\<lambda>interface_configs.
      let central_id = drop (length (self_entry_id self) - 10) (self_entry_id self) in
      bind_result (py_getitem d ATTR_HOST) (\<lambda>host.
      bind_result (py_getitem d ATTR_USERNAME) (\<lambda>username.
      bind_result (py_getitem d ATTR_PASSWORD) (\<lambda>password.
      bind_result (py_getitem d ATTR_TLS) (\<lambda>tls.
      bind_result (py_getitem d ATTR_VERIFY_TLS) (\<lambda>verify_tls.
      bind_result (py_getitem d ATTR_JSON_PORT) (\<lambda>json_port.
        Inr \<lparr>arg_name = self_instance_name self,
             arg_storage_folder = ''hahm-mqtt'',
             arg_host = host,
             arg_username = username,
             arg_password = password,
             arg_central_id = central_id,
             arg_tls = tls,
             arg_verify_tls = verify_tls,
             arg_json_port = json_port,
             arg_callback_host =
               (if \<not> py_eq_str (py_get d ATTR_CALLBACK_HOST) (IP_ANY_V4 B)
                then py_get d ATTR_CALLBACK_HOST else PNone),
             arg_callback_port =
               (if \<not> py_eq_int (py_get d ATTR_CALLBACK_PORT) (PORT_ANY B)
                then py_get d ATTR_CALLBACK_PORT else PNone),
             arg_default_callback_port = self_default_callback_port self,
             arg_interface_configs = interface_configs\<rparr>)))))))))"

text \<open>\<^verbatim>\<open>_async_create_central\<close>: the constructor call, then the awaited \<^verbatim>\<open>get_central\<close>.\<close>

definition async_create_central ::
  "'x backend \<Rightarrow> 'a BaseControlUnit_scheme \<Rightarrow> event list \<times> ('x error + CentralUnit)" where
  "async_create_central B self =
     (case create_central_config B self of
        Inl e \<Rightarrow> ([], Inl e)
      | Inr config \<Rightarrow>
          ([Await GetCentral],
           (case get_central B config of
              Inl x \<Rightarrow> Inl (BackendFailure x)
            | Inr c \<Rightarrow> Inr c)))"

text \<open>
  \<^verbatim>\<open>BaseControlUnit.async_init_central\<close>. An operation on a control unit gives the events
  it produced, its result, and the control unit as it is afterwards; an exception leaves the
  assignments made before it in place.
\<close>

definition BaseControlUnit_async_init_central ::
  "'x backend \<Rightarrow> 'a BaseControlUnit_scheme
     \<Rightarrow> event list \<times> ('x error + unit) \<times> 'a BaseControlUnit_scheme" where
  "BaseControlUnit_async_init_central B self =
     (case async_create_central B self of
        (evs, Inl e) \<Rightarrow>
          (Log DEBUG ''Init central unit %s'' [self_instance_name self] # evs, Inl e, self)
      | (evs, Inr c) \<Rightarrow>
          (Log DEBUG ''Init central unit %s'' [self_instance_name self] # evs, Inr (),
           self\<lparr>self_central := Some c\<rparr>))"

text \<open>
  \<^verbatim>\<open>async_start_central\<close>; \<open>start\<close> is what the backend's \<^verbatim>\<open>start()\<close> does when it is
  awaited: \<open>None\<close> when it returns, \<open>Some x\<close> when it raises \<open>x\<close>.
\<close>

definition async_start_central ::
  "'x option \<Rightarrow> 'a BaseControlUnit_scheme \<Rightarrow> event list \<times> ('x error + unit)" where
  "async_start_central start self =
     (case self_central self of
        Some c \<Rightarrow>
          (case start of
             Some x \<Rightarrow>
               ([Log DEBUG ''Starting central unit %s'' [self_instance_name self],
                 Await Start],
                Inl (BackendFailure x))
           | None \<Rightarrow>
               ([Log DEBUG ''Starting central unit %s'' [self_instance_name self],
                 Await Start,
                 Log INFO ''Started central unit for %s'' [self_instance_name self]],
                Inr ()))
      | None \<Rightarrow>
          ([Log DEBUG ''Starting central unit %s'' [self_instance_name self],
            Log EXCEPTION ''Starting central unit %s not possible'' [self_instance_name self],
            Log INFO ''Started central unit for %s'' [self_instance_name self]],
           Inr ()))"

text \<open>\<^verbatim>\<open>stop_central\<close>: its body is a docstring and two comments.\<close>

definition stop_central :: "'a BaseControlUnit_scheme \<Rightarrow> event list \<times> ('x error + unit)" where
  "stop_central self = ([], Inr ())"

definition BaseControlUnit_async_stop_central ::
  "'x option \<Rightarrow> 'a BaseControlUnit_scheme \<Rightarrow> event list \<times> ('x error + unit)" where
  "BaseControlUnit_async_stop_central stop self =
     (case self_central self of
        Some c \<Rightarrow>
          ([Log DEBUG ''Stopping central unit %s'' [self_instance_name self], Await Stop],
           (case stop of Some x \<Rightarrow> Inl (BackendFailure x) | None \<Rightarrow> Inr ()))
      | None \<Rightarrow>
          ([Log DEBUG ''Stopping central unit %s'' [self_instance_name self]], Inr ()))"

section \<open>control\_unit.py: HmScheduler\<close>

text \<open>
  \<^verbatim>\<open>HmScheduler.__init__\<close> stores its two arguments; the two calls of
  \<^verbatim>\<open>async_track_time_interval\<close> are comments. Its events are the ones the constructor
  produces.
\<close>

definition HmScheduler_init :: "ref \<Rightarrow> HmHub \<Rightarrow> event list \<times> HmScheduler" where
  "HmScheduler_init control_unit hm_hub =
     ([], \<lparr>sched_control = control_unit, sched_hm_hub = hm_hub\<rparr>)"

text \<open>\<^verbatim>\<open>de_init\<close>: its body is a docstring and four comments.\<close>

definition de_init :: "HmScheduler \<Rightarrow> event list \<times> HmScheduler" where
  "de_init self = ([], self)"

text \<open>
  The three fetch methods. The argument of the debug record, \<^verbatim>\<open>self._control.central.name\<close>,
  is evaluated before the record is written, and the property \<^verbatim>\<open>central\<close> raises when the
  control unit has no central unit. The outcomes of the awaited backend calls are arguments,
  as for \<open>async_start_central\<close>; the time \<open>now\<close> is not used.
\<close>

definition async_fetch_data ::
  "store \<Rightarrow> HmScheduler \<Rightarrow> 't \<Rightarrow> 'x option \<Rightarrow> 'x option \<Rightarrow> event list \<times> ('x error + unit)"
  where
  "async_fetch_data st self now fetch_sysvar_data fetch_program_data =
     (case central (st (sched_control self)) of
        Inl e \<Rightarrow> ([], Inl e)
      | Inr c \<Rightarrow>
          (case fetch_sysvar_data of
             Some x \<Rightarrow>
               ([Log DEBUG ''Scheduled fetching of programs and sysvars for %s'' [PStr (name c)],
                 Await FetchSysvarData],
                Inl (BackendFailure x))
           | None \<Rightarrow>
               ([Log DEBUG ''Scheduled fetching of programs and sysvars for %s'' [PStr (name c)],
                 Await FetchSysvarData, Await FetchProgramData],
                (case fetch_program_data of
                   Some x \<Rightarrow> Inl (BackendFailure x)
                 | None \<Rightarrow> Inr ()))))"

definition async_fetch_sysvars ::
  "store \<Rightarrow> HmScheduler \<Rightarrow> 'x option \<Rightarrow> event list \<times> ('x error + unit)" where
  "async_fetch_sysvars st self fetch_sysvar_data =
     (case central (st (sched_control self)) of
        Inl e \<Rightarrow> ([], Inl e)
      | Inr c \<Rightarrow>
          ([Log DEBUG ''Manually fetching of sysvars for %s'' [PStr (name c)],
            Await FetchSysvarData],
           (case fetch_sysvar_data of
              Some x \<Rightarrow> Inl (BackendFailure x)
            | None \<Rightarrow> Inr ())))"

definition async_fetch_master_data ::
  "store \<Rightarrow> HmScheduler \<Rightarrow> 't \<Rightarrow> 'x option \<Rightarrow> event list \<times> ('x error + unit)" where
  "async_fetch_master_data st self now refresh_entity_data =
     (case central (st (sched_control self)) of
        Inl e \<Rightarrow> ([], Inl e)
      | Inr c \<Rightarrow>
          ([Log DEBUG ''Scheduled fetching of master entities for %s'' [PStr (name c)],
            Await RefreshEntityData],
           (case refresh_entity_data of
              Some x \<Rightarrow> Inl (BackendFailure x)
            | None \<Rightarrow> Inr ())))"

section \<open>control\_unit.py: ControlUnit\<close>

definition ControlUnit_init :: "ControlConfig \<Rightarrow> 'x error + ControlUnit" where
  "ControlUnit_init control_config =
     bind_result (BaseControlUnit_init control_config) (\<lambda>base.
       Inr (BaseControlUnit.extend base
              (ControlUnit.fields [] [] None)))"

text \<open>
  \<^verbatim>\<open>ControlUnit.async_init_central\<close>: the inherited method, then the three callbacks are
  set on the central unit it stored.
\<close>

definition ControlUnit_async_init_central ::
  "'x backend \<Rightarrow> ControlUnit \<Rightarrow> event list \<times> ('x error + unit) \<times> ControlUnit" where
  "ControlUnit_async_init_central B self =
     (case BaseControlUnit_async_init_central B self of
        (evs, Inl e, self1) \<Rightarrow> (evs, Inl e, self1)
      | (evs, Inr u, self1) \<Rightarrow>
          (case self_central self1 of
             Some c \<Rightarrow>
               (evs, Inr (),
                self1\<lparr>self_central :=
                  Some (c\<lparr>callback_entity_event := Some async_callback_entity_event,
                          callback_system_event := Some async_callback_system_event,
                          callback_ha_event := Some async_callback_ha_event\<rparr>)\<rparr>)
           | None \<Rightarrow> (evs, Inr (), self1)))"

text \<open>\<^verbatim>\<open>ControlUnit.async_stop_central\<close>: the scheduler's \<^verbatim>\<open>de_init\<close>, then the inherited method.\<close>

definition ControlUnit_async_stop_central ::
  "'x option \<Rightarrow> ControlUnit \<Rightarrow> event list \<times> ('x error + unit) \<times> ControlUnit" where
  "ControlUnit_async_stop_central stop self =
     (case self_scheduler self of
        Some s \<Rightarrow>
          (case de_init s of
             (evs, s1) \<Rightarrow>
               (case BaseControlUnit_async_stop_central stop self of
                  (evs', r) \<Rightarrow> (evs @ evs', r, self\<lparr>self_scheduler := Some s1\<rparr>)))
      | None \<Rightarrow>
          (case BaseControlUnit_async_stop_central stop self of
             (evs', r) \<Rightarrow> (evs', r, self)))"

definition async_fetch_all_system_variables ::
  "store \<Rightarrow> ControlUnit \<Rightarrow> 'x option \<Rightarrow> event list \<times> ('x error + unit)" where
  "async_fetch_all_system_variables st self fetch_sysvar_data =
     (case self_scheduler self of
        None \<Rightarrow>
          ([Log DEBUG ''Hub scheduler for %s is not initialized'' [self_instance_name self]],
           Inr ())
      | Some s \<Rightarrow> async_fetch_sysvars st s fetch_sysvar_data)"

text \<open>\<^verbatim>\<open>ControlConfig.async_get_control_unit\<close>.\<close>

definition async_get_control_unit ::
  "'x backend \<Rightarrow> ControlConfig \<Rightarrow> event list \<times> ('x error + ControlUnit)" where
  "async_get_control_unit B self =
     (case ControlUnit_init self of
        Inl e \<Rightarrow> ([], Inl e)
      | Inr control_unit \<Rightarrow>
          (case ControlUnit_async_init_central B control_unit of
             (evs, Inl e, control_unit1) \<Rightarrow> (evs, Inl e)
           | (evs, Inr u, control_unit1) \<Rightarrow> (evs, Inr control_unit1)))"

text \<open>
  The two dictionaries of active entities. \<^verbatim>\<open>d[k] = v\<close> replaces the value of a key that is
  there and appends a key that is not; \<^verbatim>\<open>del d[k]\<close> raises \<^verbatim>\<open>KeyError\<close> for a key that
  is not there.
\<close>

definition async_add_hm_entity :: "string \<Rightarrow> BaseEntity \<Rightarrow> ControlUnit \<Rightarrow> ControlUnit" where
  "async_add_hm_entity entity_id hm_entity self =
     self\<lparr>self_active_hm_entities :=
       AList.update entity_id hm_entity (self_active_hm_entities self)\<rparr>"

definition async_add_hm_hub_entity ::
  "string \<Rightarrow> HmBaseHubEntity \<Rightarrow> ControlUnit \<Rightarrow> ControlUnit" where
  "async_add_hm_hub_entity entity_id hm_hub_entity self =
     self\<lparr>self_active_hm_hub_entities :=
       AList.update entity_id hm_hub_entity (self_active_hm_hub_entities self)\<rparr>"

definition async_remove_hm_entity ::
  "string \<Rightarrow> ControlUnit \<Rightarrow> ('x error + unit) \<times> ControlUnit" where
  "async_remove_hm_entity entity_id self =
     (case map_of (self_active_hm_entities self) entity_id of
        None \<Rightarrow> (Inl (KeyError entity_id), self)
      | Some e \<Rightarrow>
          (Inr (),
           self\<lparr>self_active_hm_entities :=
             AList.delete entity_id (self_active_hm_entities self)\<rparr>))"

definition async_remove_hm_hub_entity ::
  "string \<Rightarrow> ControlUnit \<Rightarrow> ('x error + unit) \<times> ControlUnit" where
  "async_remove_hm_hub_entity entity_id self =
     (case map_of (self_active_hm_hub_entities self) entity_id of
        None \<Rightarrow> (Inl (KeyError entity_id), self)
      | Some e \<Rightarrow>
          (Inr (),
           self\<lparr>self_active_hm_hub_entities :=
             AList.delete entity_id (self_active_hm_hub_entities self)\<rparr>))"

text \<open>
  \<^verbatim>\<open>async_get_new_hm_entities\<close>: the dictionary with an empty list for each available
  platform, then the loop over the new entities. Appending under a platform that is not a
  key of the dictionary raises \<^verbatim>\<open>KeyError\<close>.
\<close>

definition init_dict :: "HmPlatform list \<Rightarrow> (HmPlatform \<times> BaseEntity list) list" where
  "init_dict available = fold (\<lambda>hm_platform d. AList.update hm_platform [] d) available []"

fun new_entities_loop ::
  "string list \<Rightarrow> string list \<Rightarrow> BaseEntity list \<Rightarrow> (HmPlatform \<times> BaseEntity list) list
     \<Rightarrow> 'x error + (HmPlatform \<times> BaseEntity list) list" where
  "new_entities_loop active_unique_ids local [] hm_entities = Inr hm_entities"
| "new_entities_loop active_unique_ids local (entity # rest) hm_entities =
     (if usage entity \<noteq> ENTITY_NO_CREATE
         \<and> unique_identifier entity \<notin> set active_unique_ids
         \<and> platform_value (platform entity) \<in> set local
      then (case map_of hm_entities (platform entity) of
              None \<Rightarrow> Inl (KeyError (platform_value (platform entity)))
            | Some l \<Rightarrow>
                new_entities_loop active_unique_ids local rest
                  (AList.update (platform entity) (l @ [entity]) hm_entities))
      else new_entities_loop active_unique_ids local rest hm_entities)"

definition async_get_new_hm_entities ::
  "'x backend \<Rightarrow> ControlUnit \<Rightarrow> BaseEntity list
     \<Rightarrow> 'x error + (HmPlatform \<times> BaseEntity list) list" where
  "async_get_new_hm_entities B self new_entities =
     (let active_unique_ids = map (\<lambda>(entity_id, entity). unique_identifier entity)
                                  (self_active_hm_entities self)
      in new_entities_loop active_unique_ids (HMIP_LOCAL_PLATFORMS B) new_entities
           (init_dict (AVAILABLE_HM_PLATFORMS B)))"

section \<open>Reading the events and results\<close>

text \<open>The backend coroutines awaited in a run, in order.\<close>

fun awaited :: "event list \<Rightarrow> backend_call list" where
  "awaited [] = []"
| "awaited (Await c # evs) = c # awaited evs"
| "awaited (ev # evs) = awaited evs"

text \<open>The periodic listeners registered in a run.\<close>

fun listeners :: "event list \<Rightarrow> (string \<times> timedelta) list" where
  "listeners [] = []"
| "listeners (TrackTimeInterval f interval # evs) = (f, interval) # listeners evs"
| "listeners (ev # evs) = listeners evs"

text \<open>
  An operation swallows a failure when it returns normally; it logs a failure when a log
  record follows the last awaited call.
\<close>

definition swallowed :: "'e + 'a \<Rightarrow> bool" where
  "swallowed r = (case r of Inl e \<Rightarrow> False | Inr v \<Rightarrow> True)"

fun is_log :: "event \<Rightarrow> bool" where
  "is_log (Log level msg args) = True"
| "is_log ev = False"

definition logged_after_await :: "event list \<Rightarrow> bool" where
  "logged_after_await evs = (takeWhile is_log (rev evs) \<noteq> [])"

text \<open>
  Where a control unit holds a scheduler, the control unit the scheduler refers to has a
  central unit. The constructor sets \<^verbatim>\<open>_scheduler\<close> to \<^verbatim>\<open>None\<close> and no method assigns it
  again; the one place that would create a scheduler (in comments, at the hub-created event)
  asks for \<^verbatim>\<open>self.central.hub\<close> first; and \<^verbatim>\<open>_central\<close>, once set, is never reset. So this
  holds of every control unit a run can produce.
\<close>

definition scheduler_has_central :: "store \<Rightarrow> ControlUnit \<Rightarrow> bool" where
  "scheduler_has_central st self =
     (case self_scheduler self of
        None \<Rightarrow> True
      | Some s \<Rightarrow> self_central (st (sched_control s)) \<noteq> None)"

section \<open>example.py: the configuration, and inputs built on it\<close>

text \<open>
  The configuration of example.py, with the value under \<^verbatim>\<open>callback_host\<close> and
  \<^verbatim>\<open>callback_port\<close> left open (example.py has \<^verbatim>\<open>None\<close> for both).
\<close>

definition example_config_with :: "pyval \<Rightarrow> pyval \<Rightarrow> ControlConfig" where
  "example_config_with callback_host callback_port =
     \<lparr>entry_id = ''1234567890'',
      data = [(''instance_name'', PStr ''xxx''),
              (''host'', PStr ''xxx''),
              (''username'', PStr ''xxx''),
              (''password'', PStr ''xxx''),
              (''tls'', PBool False),
              (''verify_tls'', PBool False),
              (''callback_host'', callback_host),
              (''callback_port'', callback_port),
              (''json_port'', PNone),
              (''interface'',
                 PDict [(''HmIP-RF'', PDict [(''port'', PInt 2010)]),
                        (''BidCos-RF'', PDict [(''port'', PInt 2001)])])],
      default_callback_port = 56345\<rparr>"

definition example_config :: ControlConfig where
  "example_config = example_config_with PNone PNone"

definition example_central :: CentralUnit where
  "example_central =
     \<lparr>name = ''xxx'', model = ''CCU'', version = ''3'',
      callback_entity_event = None, callback_system_event = None,
      callback_ha_event = None\<rparr>"

text \<open>
  A backend whose constants are the any-address and the any-port, with three entity
  platforms, and whose \<^verbatim>\<open>get_central\<close> gives \<open>example_central\<close>; and one whose
  \<^verbatim>\<open>get_central\<close> fails.
\<close>

definition example_backend :: "unit backend" where
  "example_backend =
     \<lparr>IP_ANY_V4 = ''0.0.0.0'', PORT_ANY = 0,
      AVAILABLE_HM_PLATFORMS =
        [HmPlatform ''binary_sensor'', HmPlatform ''switch'', HmPlatform ''text''],
      get_central = (\<lambda>config. Inr example_central)\<rparr>"

definition failing_backend :: "unit backend" where
  "failing_backend = example_backend\<lparr>get_central := (\<lambda>config. Inl ())\<rparr>"

text \<open>The arguments the \<^verbatim>\<open>CentralConfig\<close> constructor gets for \<open>example_config\<close>.\<close>

definition example_central_config_args :: CentralConfig where
  "example_central_config_args =
     \<lparr>arg_name = PStr ''xxx'', arg_storage_folder = ''hahm-mqtt'', arg_host = PStr ''xxx'',
      arg_username = PStr ''xxx'', arg_password = PStr ''xxx'',
      arg_central_id = ''1234567890'', arg_tls = PBool False, arg_verify_tls = PBool False,
      arg_json_port = PNone, arg_callback_host = PNone, arg_callback_port = PNone,
      arg_default_callback_port = 56345,
      arg_interface_configs =
        {\<lparr>arg_central_name = PStr ''xxx'', arg_interface = ''BidCos-RF'',
          arg_port = PInt 2001, arg_path = PNone\<rparr>,
         \<lparr>arg_central_name = PStr ''xxx'', arg_interface = ''HmIP-RF'',
          arg_port = PInt 2010, arg_path = PNone\<rparr>}\<rparr>"

text \<open>
  The control unit that \<open>ControlUnit_init\<close> gives for \<open>example_config\<close>, the same unit
  with a central unit, and that one with a scheduler that refers to address 0.
\<close>

definition example_unit :: ControlUnit where
  "example_unit =
     \<lparr>self_entry_id = ''1234567890'',
      self_config_data = data example_config,
      self_default_callback_port = 56345,
      self_instance_name = PStr ''xxx'',
      self_central = None,
      self_active_hm_entities = [],
      self_active_hm_hub_entities = [],
      self_scheduler = None\<rparr>"

definition example_scheduler :: HmScheduler where
  "example_scheduler = \<lparr>sched_control = 0, sched_hm_hub = HmHub ''hub''\<rparr>"

definition started_unit :: ControlUnit where
  "started_unit = example_unit\<lparr>self_central := Some example_central\<rparr>"

definition scheduled_unit :: ControlUnit where
  "scheduled_unit = started_unit\<lparr>self_scheduler := Some example_scheduler\<rparr>"

text \<open>Entities for the example: a switch, a text entity and a switch that is not created.\<close>

definition switch_entity :: "string \<Rightarrow> BaseEntity" where
  "switch_entity uid =
     \<lparr>unique_identifier = uid, usage = OtherUsage ''entity'', platform = HmPlatform ''switch''\<rparr>"

definition text_entity :: "string \<Rightarrow> BaseEntity" where
  "text_entity uid =
     \<lparr>unique_identifier = uid, usage = OtherUsage ''entity'', platform = HmPlatform ''text''\<rparr>"

definition hidden_entity :: "string \<Rightarrow> BaseEntity" where
  "hidden_entity uid =
     \<lparr>unique_identifier = uid, usage = ENTITY_NO_CREATE, platform = HmPlatform ''switch''\<rparr>"

section \<open>Intervals\<close>

text \<open>
  Claim C7. The master-paramset interval is strictly longer than the system-variable
  interval: the first is exactly 300 seconds, the second exactly 30 seconds, and the
  comparison of the two durations puts the system-variable interval strictly below the
  master interval.
\<close>

theorem master_interval_longer:
  "timedelta_less SYSVAR_SCAN_INTERVAL MASTER_SCAN_INTERVAL
   \<and> total_seconds SYSVAR_SCAN_INTERVAL = 30
   \<and> total_seconds MASTER_SCAN_INTERVAL = 300
   \<and> total_seconds SYSVAR_SCAN_INTERVAL < total_seconds MASTER_SCAN_INTERVAL"
  by (simp add: timedelta_less_def SYSVAR_SCAN_INTERVAL_def MASTER_SCAN_INTERVAL_def
      timedelta_of_seconds_def total_seconds_def)

section \<open>New entities by platform\<close>

lemma map_of_init_fold:
  "map_of (fold (\<lambda>hm_platform d. AList.update hm_platform ([]::BaseEntity list) d) available d0) p =
     (if p \<in> set available then Some [] else map_of d0 p)"
  by (induction available arbitrary: d0) (auto simp: update_conv')

lemma distinct_init_fold:
  "distinct (map fst d0) \<Longrightarrow>
   distinct (map fst (fold (\<lambda>hm_platform d. AList.update hm_platform ([]::BaseEntity list) d) available d0))"
  by (induction available arbitrary: d0) (auto simp: distinct_update)

lemma map_of_init_dict:
  "map_of (init_dict available) p = (if p \<in> set available then Some [] else None)"
  by (simp add: init_dict_def map_of_init_fold)

lemma distinct_init_dict: "distinct (map fst (init_dict available))"
  by (simp add: init_dict_def distinct_init_fold)

lemma keys_init_dict: "fst ` set (init_dict available) = set available"
proof -
  have "dom (map_of (init_dict available)) = set available"
    by (auto simp: map_of_init_dict dom_def)
  then show ?thesis by (simp add: dom_map_of_conv_image_fst)
qed

lemma new_entities_loop_result:
  fixes d :: "(HmPlatform \<times> BaseEntity list) list"
  assumes "\<And>v. v \<in> set local \<Longrightarrow> map_of d (HmPlatform v) \<noteq> None"
  shows "\<exists>d'. (new_entities_loop ids local es d :: 'x error + _) = Inr d'
           \<and> dom (map_of d') = dom (map_of d)
           \<and> (distinct (map fst d) \<longrightarrow> distinct (map fst d'))
           \<and> (\<forall>p l. map_of d p = Some l \<longrightarrow>
                 map_of d' p = Some (l @ filter (\<lambda>e. platform e = p \<and> usage e \<noteq> ENTITY_NO_CREATE
                       \<and> unique_identifier e \<notin> set ids
                       \<and> platform_value (platform e) \<in> set local) es))"
  using assms
proof (induction es arbitrary: d)
  case Nil
  then show ?case by simp
next
  case (Cons e es)
  show ?case
  proof (cases "usage e \<noteq> ENTITY_NO_CREATE \<and> unique_identifier e \<notin> set ids
                 \<and> platform_value (platform e) \<in> set local")
    case False
    from Cons.IH[OF Cons.prems] obtain d' where
      "(new_entities_loop ids local es d :: 'x error + _) = Inr d'"
      "dom (map_of d') = dom (map_of d)"
      "distinct (map fst d) \<longrightarrow> distinct (map fst d')"
      "\<forall>p l. map_of d p = Some l \<longrightarrow>
                 map_of d' p = Some (l @ filter (\<lambda>e. platform e = p \<and> usage e \<noteq> ENTITY_NO_CREATE
                       \<and> unique_identifier e \<notin> set ids
                       \<and> platform_value (platform e) \<in> set local) es)"
      by blast
    with False show ?thesis by auto
  next
    case True
    then have "map_of d (HmPlatform (platform_value (platform e))) \<noteq> None"
      using Cons.prems by blast
    then obtain l0 where l0: "map_of d (platform e) = Some l0" by auto
    let ?d1 = "AList.update (platform e) (l0 @ [e]) d"
    have m1: "map_of ?d1 = (map_of d)(platform e \<mapsto> l0 @ [e])" by (simp add: update_conv')
    have pre: "\<And>v. v \<in> set local \<Longrightarrow> map_of ?d1 (HmPlatform v) \<noteq> None"
      using Cons.prems by (simp add: m1)
    from Cons.IH[OF pre] obtain d' where d':
      "(new_entities_loop ids local es ?d1 :: 'x error + _) = Inr d'"
      "dom (map_of d') = dom (map_of ?d1)"
      "distinct (map fst ?d1) \<longrightarrow> distinct (map fst d')"
      "\<forall>p l. map_of ?d1 p = Some l \<longrightarrow>
                 map_of d' p = Some (l @ filter (\<lambda>e. platform e = p \<and> usage e \<noteq> ENTITY_NO_CREATE
                       \<and> unique_identifier e \<notin> set ids
                       \<and> platform_value (platform e) \<in> set local) es)"
      by blast
    have "(new_entities_loop ids local (e # es) d :: 'x error + _) = Inr d'"
      using True l0 d'(1) by simp
    moreover have "dom (map_of d') = dom (map_of d)"
      using d'(2) l0 by (auto simp: m1)
    moreover have "distinct (map fst d) \<longrightarrow> distinct (map fst d')"
      using d'(3) by (simp add: distinct_update)
    moreover have "\<forall>p l. map_of d p = Some l \<longrightarrow>
                 map_of d' p = Some (l @ filter (\<lambda>e. platform e = p \<and> usage e \<noteq> ENTITY_NO_CREATE
                       \<and> unique_identifier e \<notin> set ids
                       \<and> platform_value (platform e) \<in> set local) (e # es))"
      using d'(4) True l0 by (auto simp: m1)
    ultimately show ?thesis by blast
  qed
qed

lemma local_platforms_available:
  "v \<in> set (HMIP_LOCAL_PLATFORMS B) \<Longrightarrow> HmPlatform v \<in> set (AVAILABLE_HM_PLATFORMS B)"
proof -
  assume "v \<in> set (HMIP_LOCAL_PLATFORMS B)"
  then obtain p where p: "p \<in> set (AVAILABLE_HM_PLATFORMS B)" "v = platform_value p"
    by (auto simp: HMIP_LOCAL_PLATFORMS_def get_hmip_local_platforms_def Let_def)
  have "HmPlatform (platform_value p) = p" by simp
  with p show ?thesis by simp
qed

text \<open>
  Claim C9. For every list of new entities, \<open>async_get_new_hm_entities\<close> returns a
  dictionary and never raises. Its keys are exactly the available platforms, each once. Under
  each platform it holds the entities of the input list, in input order, that have this
  platform, whose usage is not \<open>ENTITY_NO_CREATE\<close>, whose unique identifier is not the
  unique identifier of an active entity, and whose platform value is in
  \<open>HMIP_LOCAL_PLATFORMS\<close>: a platform without such an entity has the empty list.
\<close>

theorem new_hm_entities_by_platform:
  "\<exists>d. async_get_new_hm_entities B self new_entities = Inr d
     \<and> fst ` set d = set (AVAILABLE_HM_PLATFORMS B)
     \<and> distinct (map fst d)
     \<and> (\<forall>p \<in> set (AVAILABLE_HM_PLATFORMS B).
          map_of d p =
            Some (filter (\<lambda>e. platform e = p
                    \<and> usage e \<noteq> ENTITY_NO_CREATE
                    \<and> unique_identifier e \<notin> unique_identifier ` snd ` set (self_active_hm_entities self)
                    \<and> platform_value (platform e) \<in> set (HMIP_LOCAL_PLATFORMS B)) new_entities))"
proof -
  let ?ids = "map (\<lambda>(entity_id, entity). unique_identifier entity) (self_active_hm_entities self)"
  let ?d0 = "init_dict (AVAILABLE_HM_PLATFORMS B)"
  have ids: "set ?ids = unique_identifier ` snd ` set (self_active_hm_entities self)"
    by force
  have pre: "\<And>v. v \<in> set (HMIP_LOCAL_PLATFORMS B) \<Longrightarrow> map_of ?d0 (HmPlatform v) \<noteq> None"
    by (simp add: map_of_init_dict local_platforms_available)
  from new_entities_loop_result[OF pre, where ids = ?ids and es = new_entities] obtain d' where d':
    "(new_entities_loop ?ids (HMIP_LOCAL_PLATFORMS B) new_entities ?d0 :: 'a error + _) = Inr d'"
    "dom (map_of d') = dom (map_of ?d0)"
    "distinct (map fst ?d0) \<longrightarrow> distinct (map fst d')"
    "\<forall>p l. map_of ?d0 p = Some l \<longrightarrow>
        map_of d' p = Some (l @ filter (\<lambda>e. platform e = p \<and> usage e \<noteq> ENTITY_NO_CREATE
              \<and> unique_identifier e \<notin> set ?ids
              \<and> platform_value (platform e) \<in> set (HMIP_LOCAL_PLATFORMS B)) new_entities)"
    by blast
  have r: "async_get_new_hm_entities B self new_entities = Inr d'"
    using d'(1) by (simp add: async_get_new_hm_entities_def)
  have k: "fst ` set d' = set (AVAILABLE_HM_PLATFORMS B)"
    using d'(2) keys_init_dict[of "AVAILABLE_HM_PLATFORMS B"]
    by (simp add: dom_map_of_conv_image_fst)
  have dist: "distinct (map fst d')" using d'(3) distinct_init_dict by blast
  have v: "\<forall>p \<in> set (AVAILABLE_HM_PLATFORMS B).
          map_of d' p =
            Some (filter (\<lambda>e. platform e = p
                    \<and> usage e \<noteq> ENTITY_NO_CREATE
                    \<and> unique_identifier e \<notin> unique_identifier ` snd ` set (self_active_hm_entities self)
                    \<and> platform_value (platform e) \<in> set (HMIP_LOCAL_PLATFORMS B)) new_entities)"
    using d'(4) ids by (simp add: map_of_init_dict)
  from r k dist v show ?thesis by blast
qed

theorem new_hm_entities_by_platform_witness:
  "\<exists>d. async_get_new_hm_entities example_backend
          (async_add_hm_entity ''switch.a'' (switch_entity ''a'') example_unit)
          [switch_entity ''b'', switch_entity ''a'', text_entity ''t'', hidden_entity ''h'',
           switch_entity ''c''] = Inr d
     \<and> map_of d (HmPlatform ''switch'') = Some [switch_entity ''b'', switch_entity ''c'']
     \<and> map_of d (HmPlatform ''text'') = Some []
     \<and> map_of d (HmPlatform ''binary_sensor'') = Some []"
  using new_hm_entities_by_platform [of example_backend
          "async_add_hm_entity ''switch.a'' (switch_entity ''a'') example_unit"
          "[switch_entity ''b'', switch_entity ''a'', text_entity ''t'', hidden_entity ''h'',
           switch_entity ''c'']"]
  by (auto simp: example_backend_def example_unit_def async_add_hm_entity_def
      switch_entity_def text_entity_def hidden_entity_def HMIP_LOCAL_PLATFORMS_def
      get_hmip_local_platforms_def Platform_members_def)

section \<open>The two dictionaries of active entities\<close>

text \<open>
  Claim C10. Adding under an entity id changes the entry of that id in the dictionary of
  device entities and leaves the dictionary of hub entities as it is, and the other way
  round for hub entities. Removing an id that is not a key of its dictionary raises
  \<open>KeyError\<close> and leaves the whole control unit unchanged; removing an id that is a key
  succeeds, drops that entry only and leaves the other dictionary as it is.
\<close>

theorem active_entity_mappings_independent:
  "map_of (self_active_hm_entities (async_add_hm_entity k e self))
     = (map_of (self_active_hm_entities self))(k \<mapsto> e)
   \<and> self_active_hm_hub_entities (async_add_hm_entity k e self)
     = self_active_hm_hub_entities self
   \<and> map_of (self_active_hm_hub_entities (async_add_hm_hub_entity k h self))
     = (map_of (self_active_hm_hub_entities self))(k \<mapsto> h)
   \<and> self_active_hm_entities (async_add_hm_hub_entity k h self)
     = self_active_hm_entities self
   \<and> (case (async_remove_hm_entity k self :: ('x error + unit) \<times> ControlUnit) of
        (r, self') \<Rightarrow>
          if map_of (self_active_hm_entities self) k = None
          then r = Inl (KeyError k) \<and> self' = self
          else r = Inr ()
             \<and> map_of (self_active_hm_entities self')
                 = (map_of (self_active_hm_entities self))(k := None)
             \<and> self_active_hm_hub_entities self' = self_active_hm_hub_entities self)
   \<and> (case (async_remove_hm_hub_entity k self :: ('x error + unit) \<times> ControlUnit) of
        (r, self') \<Rightarrow>
          if map_of (self_active_hm_hub_entities self) k = None
          then r = Inl (KeyError k) \<and> self' = self
          else r = Inr ()
             \<and> map_of (self_active_hm_hub_entities self')
                 = (map_of (self_active_hm_hub_entities self))(k := None)
             \<and> self_active_hm_entities self' = self_active_hm_entities self)"
  by (auto simp: async_add_hm_entity_def async_add_hm_hub_entity_def
      async_remove_hm_entity_def async_remove_hm_hub_entity_def update_conv' delete_conv')

section \<open>The property central\<close>

lemma BaseControlUnit_init_central:
  "(BaseControlUnit_init cc :: 'x error + BaseControlUnit) = Inr u \<Longrightarrow> self_central u = None"
  by (auto simp: BaseControlUnit_init_def bind_result_def split: sum.splits)

lemma ControlUnit_init_central:
  "(ControlUnit_init cc :: 'x error + ControlUnit) = Inr u \<Longrightarrow> self_central u = None"
  by (auto simp: ControlUnit_init_def bind_result_def BaseControlUnit.defs ControlUnit.defs
      dest: BaseControlUnit_init_central split: sum.splits)

lemma base_init_central_cases:
  "BaseControlUnit_async_init_central B self = (evs, r, self') \<Longrightarrow>
     (\<exists>e. r = Inl e \<and> snd (async_create_central B self) = Inl e \<and> self' = self)
   \<or> (\<exists>c. r = Inr () \<and> snd (async_create_central B self) = Inr c
          \<and> self' = self\<lparr>self_central := Some c\<rparr>)"
  by (auto simp: BaseControlUnit_async_init_central_def split: prod.splits sum.splits)

text \<open>
  Claim C8. The property \<open>central\<close> raises exactly when the control unit has no central
  unit. A control unit fresh from its constructor has none, so the property raises; an
  \<open>async_init_central\<close> that fails leaves the control unit as it was; and after an
  \<open>async_init_central\<close> that succeeds the property returns the central unit that
  \<open>async_init_central\<close> stored (for the base class: the very value that
  \<open>_async_create_central\<close> returned).
\<close>

theorem central_raises_iff_uninitialised:
  fixes B :: "'x backend"
  shows
  "((\<exists>e. (central self :: 'x error + CentralUnit) = Inl e) \<longleftrightarrow> self_central self = None)
   \<and> ((BaseControlUnit_init cc :: 'x error + BaseControlUnit) = Inr base \<longrightarrow>
        (central base :: 'x error + CentralUnit)
          = Inl (PyException ''homematicip_local.central not initialized''))
   \<and> ((ControlUnit_init cc :: 'x error + ControlUnit) = Inr u \<longrightarrow>
        (central u :: 'x error + CentralUnit)
          = Inl (PyException ''homematicip_local.central not initialized''))
   \<and> (BaseControlUnit_async_init_central B self = (evs, Inl e, self') \<longrightarrow> self' = self)
   \<and> (BaseControlUnit_async_init_central B self = (evs, Inr (), self') \<longrightarrow>
        (\<exists>c. snd (async_create_central B self) = Inr c
           \<and> self_central self' = Some c
           \<and> (central self' :: 'x error + CentralUnit) = Inr c))
   \<and> (ControlUnit_async_init_central B cu = (evs, Inl e, cu') \<longrightarrow> cu' = cu)
   \<and> (ControlUnit_async_init_central B cu = (evs, Inr (), cu') \<longrightarrow>
        (\<exists>c. self_central cu' = Some c \<and> (central cu' :: 'x error + CentralUnit) = Inr c))"
proof -
  have a: "(\<exists>e. (central self :: 'x error + CentralUnit) = Inl e) \<longleftrightarrow> self_central self = None"
    by (auto simp: central_def split: option.splits)
  have b: "(BaseControlUnit_init cc :: 'x error + BaseControlUnit) = Inr base \<longrightarrow>
        (central base :: 'x error + CentralUnit)
          = Inl (PyException ''homematicip_local.central not initialized'')"
    by (auto simp: central_def dest: BaseControlUnit_init_central)
  have c: "(ControlUnit_init cc :: 'x error + ControlUnit) = Inr u \<longrightarrow>
        (central u :: 'x error + CentralUnit)
          = Inl (PyException ''homematicip_local.central not initialized'')"
    by (auto simp: central_def dest: ControlUnit_init_central)
  have d: "BaseControlUnit_async_init_central B self = (evs, Inl e, self') \<longrightarrow> self' = self"
    by (auto dest: base_init_central_cases)
  have e: "BaseControlUnit_async_init_central B self = (evs, Inr (), self') \<longrightarrow>
        (\<exists>c. snd (async_create_central B self) = Inr c
           \<and> self_central self' = Some c
           \<and> (central self' :: 'x error + CentralUnit) = Inr c)"
    by (auto simp: central_def dest!: base_init_central_cases)
  have f: "ControlUnit_async_init_central B cu = (evs, Inl e, cu') \<longrightarrow> cu' = cu"
    by (auto simp: ControlUnit_async_init_central_def dest: base_init_central_cases
        split: prod.splits sum.splits option.splits)
  have g: "ControlUnit_async_init_central B cu = (evs, Inr (), cu') \<longrightarrow>
        (\<exists>c. self_central cu' = Some c \<and> (central cu' :: 'x error + CentralUnit) = Inr c)"
    by (auto simp: ControlUnit_async_init_central_def central_def dest!: base_init_central_cases
        split: prod.splits sum.splits option.splits)
  from a b c d e f g show ?thesis by blast
qed

section \<open>Runs on the example configuration\<close>

lemma example_unit_init: "(ControlUnit_init example_config :: unit error + ControlUnit) = Inr example_unit"
  by (simp add: ControlUnit_init_def BaseControlUnit_init_def bind_result_def py_getitem_def
      example_config_def example_config_with_def example_unit_def ATTR_INSTANCE_NAME_def
      BaseControlUnit.defs ControlUnit.defs)

lemma example_central_config:
  "(create_central_config example_backend example_unit :: unit error + CentralConfig) =
     Inr example_central_config_args"
  by (simp add: create_central_config_def example_unit_def example_config_def
      example_config_with_def example_backend_def bind_result_def py_getitem_def py_get_def
      ATTR_INTERFACE_def ATTR_HOST_def ATTR_USERNAME_def ATTR_PASSWORD_def ATTR_TLS_def
      ATTR_VERIFY_TLS_def ATTR_JSON_PORT_def ATTR_CALLBACK_HOST_def ATTR_CALLBACK_PORT_def
      ATTR_PORT_def ATTR_PATH_def example_central_config_args_def)

lemma example_create_central:
  "async_create_central example_backend example_unit = ([Await GetCentral], Inr example_central)"
  by (simp add: async_create_central_def example_central_config) (simp add: example_backend_def)

lemma example_init_run:
  "ControlUnit_async_init_central example_backend example_unit =
     ([Log DEBUG ''Init central unit %s'' [PStr ''xxx''], Await GetCentral], Inr (),
      example_unit\<lparr>self_central :=
        Some (example_central\<lparr>callback_entity_event := Some async_callback_entity_event,
                callback_system_event := Some async_callback_system_event,
                callback_ha_event := Some async_callback_ha_event\<rparr>)\<rparr>)"
  by (simp add: ControlUnit_async_init_central_def BaseControlUnit_async_init_central_def
      example_create_central) (simp add: example_unit_def)

section \<open>The property central, continued\<close>

theorem central_raises_iff_uninitialised_witness:
  "(central example_unit :: unit error + CentralUnit)
     = Inl (PyException ''homematicip_local.central not initialized'')
   \<and> (\<exists>c. self_central (snd (snd (ControlUnit_async_init_central example_backend example_unit)))
            = Some c
         \<and> (central (snd (snd (ControlUnit_async_init_central example_backend example_unit)))
              :: unit error + CentralUnit) = Inr c)"
  using central_raises_iff_uninitialised [where B = example_backend and cc = example_config
      and u = example_unit and cu = example_unit and self = example_unit
      and self' = example_unit and e = TypeError
      and base = "BaseControlUnit.truncate example_unit"
      and evs = "[Log DEBUG ''Init central unit %s'' [PStr ''xxx''], Await GetCentral]"
      and cu' = "snd (snd (ControlUnit_async_init_central example_backend example_unit))"]
    example_unit_init
  by (simp add: example_init_run)

section \<open>The callbacks\<close>

text \<open>
  Claim C5. When \<open>ControlUnit.async_init_central\<close> succeeds, the control unit is as
  before except that it holds the central unit the backend returned, with its three callback
  attributes set to the control unit's three callback methods and every other attribute as
  the backend returned it.
\<close>

theorem three_callbacks_registered:
  assumes "ControlUnit_async_init_central B self = (evs, Inr (), self')"
  shows "\<exists>config c. create_central_config B self = Inr config
           \<and> get_central B config = Inr c
           \<and> self' = self\<lparr>self_central :=
                Some (c\<lparr>callback_entity_event := Some async_callback_entity_event,
                        callback_system_event := Some async_callback_system_event,
                        callback_ha_event := Some async_callback_ha_event\<rparr>)\<rparr>
           \<and> (\<exists>c'. self_central self' = Some c'
                 \<and> callback_entity_event c' = Some async_callback_entity_event
                 \<and> callback_system_event c' = Some async_callback_system_event
                 \<and> callback_ha_event c' = Some async_callback_ha_event
                 \<and> name c' = name c \<and> model c' = model c \<and> version c' = version c)"
  using assms
  by (auto simp: ControlUnit_async_init_central_def BaseControlUnit_async_init_central_def
      async_create_central_def split: prod.splits sum.splits option.splits)

theorem three_callbacks_registered_witness:
  "\<exists>c'. self_central (snd (snd (ControlUnit_async_init_central example_backend example_unit)))
           = Some c'
       \<and> callback_entity_event c' = Some async_callback_entity_event
       \<and> callback_system_event c' = Some async_callback_system_event
       \<and> callback_ha_event c' = Some async_callback_ha_event
       \<and> name c' = ''xxx''"
proof -
  have c: "get_central example_backend config = Inr c \<Longrightarrow> name c = ''xxx''" for config c
    by (auto simp: example_backend_def example_central_def)
  from three_callbacks_registered [OF example_init_run] c show ?thesis
    by (auto simp: example_init_run)
qed

section \<open>The scheduler's constructor\<close>

text \<open>
  Claim C2 says that constructing the scheduler registers two periodic listeners, one for
  the system-variable fetch and one for the master fetch. On the code the constructor
  registers none: the listeners of its run are the empty list, and neither listener is
  among them.
\<close>

theorem scheduler_init_registers_nothing_counterexample:
  "listeners (fst (HmScheduler_init 0 (HmHub ''hub''))) = []
   \<and> (''_async_fetch_data'', SYSVAR_SCAN_INTERVAL)
        \<notin> set (listeners (fst (HmScheduler_init 0 (HmHub ''hub''))))
   \<and> (''_async_fetch_master_data'', MASTER_SCAN_INTERVAL)
        \<notin> set (listeners (fst (HmScheduler_init 0 (HmHub ''hub''))))"
  by (simp add: HmScheduler_init_def)

text \<open>
  Claim C2, as amended. For every control unit and hub, constructing the scheduler stores
  the two arguments and does nothing else: it registers no listener, awaits nothing and logs
  nothing; and \<open>de_init\<close> on the new scheduler changes nothing either.
\<close>

theorem scheduler_init_stores_arguments:
  "fst (HmScheduler_init control_unit hm_hub) = []
   \<and> listeners (fst (HmScheduler_init control_unit hm_hub)) = []
   \<and> awaited (fst (HmScheduler_init control_unit hm_hub)) = []
   \<and> sched_control (snd (HmScheduler_init control_unit hm_hub)) = control_unit
   \<and> sched_hm_hub (snd (HmScheduler_init control_unit hm_hub)) = hm_hub
   \<and> de_init (snd (HmScheduler_init control_unit hm_hub))
        = ([], snd (HmScheduler_init control_unit hm_hub))"
  by (simp add: HmScheduler_init_def de_init_def)

section \<open>Failures of the backend\<close>

text \<open>
  Claim C3 says that a failure of the backend's start, stop or fetch is either logged or, at
  one place, swallowed. On the code a failing \<^verbatim>\<open>start()\<close> is neither: the operation ends
  with the backend's failure, and no log record follows the awaited call.
\<close>

theorem backend_failure_logged_or_swallowed_counterexample:
  "\<not> (swallowed (snd (async_start_central (Some ()) started_unit))
       \<or> logged_after_await (fst (async_start_central (Some ()) started_unit)))
   \<and> snd (async_start_central (Some ()) started_unit) = Inl (BackendFailure ())"
  by (simp add: async_start_central_def started_unit_def example_unit_def swallowed_def
      logged_after_await_def)

text \<open>
  Claim C3, as amended. Whenever an awaited backend call (get_central, start, stop, the two
  hub fetches, the master refresh) fails, the operation that awaits it ends with that very
  failure, unwrapped; the awaited call is the last event of the run, so nothing is logged
  after it, and no operation returns normally from a failed call. This holds for
  \<open>async_create_central\<close>, \<open>async_start_central\<close>, both \<open>async_stop_central\<close>, the three
  scheduler fetches and \<open>async_fetch_all_system_variables\<close>.
\<close>

theorem backend_failures_propagate:
  fixes B :: "'x backend" and x :: 'x
  shows
  "(create_central_config B self = Inr config \<and> get_central B config = Inl x \<longrightarrow>
      async_create_central B self = ([Await GetCentral], Inl (BackendFailure x)))
   \<and> (self_central self = Some c \<longrightarrow>
      async_start_central (Some x) self =
        ([Log DEBUG ''Starting central unit %s'' [self_instance_name self], Await Start],
         Inl (BackendFailure x)))
   \<and> (self_central self = Some c \<longrightarrow>
      BaseControlUnit_async_stop_central (Some x) self =
        ([Log DEBUG ''Stopping central unit %s'' [self_instance_name self], Await Stop],
         Inl (BackendFailure x)))
   \<and> (self_central cu = Some c \<longrightarrow>
      ControlUnit_async_stop_central (Some x) cu =
        ([Log DEBUG ''Stopping central unit %s'' [self_instance_name cu], Await Stop],
         Inl (BackendFailure x), cu))
   \<and> (self_central (st (sched_control s)) = Some c \<longrightarrow>
      async_fetch_data st s now (Some x) outcome =
        ([Log DEBUG ''Scheduled fetching of programs and sysvars for %s'' [PStr (name c)],
          Await FetchSysvarData],
         Inl (BackendFailure x)))
   \<and> (self_central (st (sched_control s)) = Some c \<longrightarrow>
      async_fetch_data st s now None (Some x) =
        ([Log DEBUG ''Scheduled fetching of programs and sysvars for %s'' [PStr (name c)],
          Await FetchSysvarData, Await FetchProgramData],
         Inl (BackendFailure x)))
   \<and> (self_central (st (sched_control s)) = Some c \<longrightarrow>
      async_fetch_sysvars st s (Some x) =
        ([Log DEBUG ''Manually fetching of sysvars for %s'' [PStr (name c)],
          Await FetchSysvarData],
         Inl (BackendFailure x)))
   \<and> (self_central (st (sched_control s)) = Some c \<longrightarrow>
      async_fetch_master_data st s now (Some x) =
        ([Log DEBUG ''Scheduled fetching of master entities for %s'' [PStr (name c)],
          Await RefreshEntityData],
         Inl (BackendFailure x)))
   \<and> (self_scheduler cu = Some s \<and> self_central (st (sched_control s)) = Some c \<longrightarrow>
      async_fetch_all_system_variables st cu (Some x) =
        ([Log DEBUG ''Manually fetching of sysvars for %s'' [PStr (name c)],
          Await FetchSysvarData],
         Inl (BackendFailure x)))"
  by (simp add: async_create_central_def async_start_central_def
      BaseControlUnit_async_stop_central_def ControlUnit_async_stop_central_def
      async_fetch_data_def async_fetch_sysvars_def async_fetch_master_data_def
      async_fetch_all_system_variables_def central_def de_init_def split: option.splits)

theorem backend_failures_propagate_witness:
  "async_create_central failing_backend example_unit = ([Await GetCentral], Inl (BackendFailure ()))
   \<and> async_start_central (Some ()) started_unit =
        ([Log DEBUG ''Starting central unit %s'' [PStr ''xxx''], Await Start],
         Inl (BackendFailure ()))
   \<and> ControlUnit_async_stop_central (Some ()) scheduled_unit =
        ([Log DEBUG ''Stopping central unit %s'' [PStr ''xxx''], Await Stop],
         Inl (BackendFailure ()), scheduled_unit)
   \<and> async_fetch_data (\<lambda>r. scheduled_unit) example_scheduler (0::nat) None (Some ()) =
        ([Log DEBUG ''Scheduled fetching of programs and sysvars for %s'' [PStr ''xxx''],
          Await FetchSysvarData, Await FetchProgramData],
         Inl (BackendFailure ()))
   \<and> async_fetch_master_data (\<lambda>r. scheduled_unit) example_scheduler (0::nat) (Some ()) =
        ([Log DEBUG ''Scheduled fetching of master entities for %s'' [PStr ''xxx''],
          Await RefreshEntityData],
         Inl (BackendFailure ()))
   \<and> async_fetch_all_system_variables (\<lambda>r. scheduled_unit) scheduled_unit (Some ()) =
        ([Log DEBUG ''Manually fetching of sysvars for %s'' [PStr ''xxx''],
          Await FetchSysvarData],
         Inl (BackendFailure ()))"
proof -
  have cfg: "\<exists>config. (create_central_config failing_backend example_unit
                 :: unit error + CentralConfig) = Inr config
               \<and> get_central failing_backend config = Inl ()"
    using example_central_config
    by (simp add: create_central_config_def failing_backend_def example_backend_def)
  then obtain config where config:
    "(create_central_config failing_backend example_unit :: unit error + CentralConfig) = Inr config"
    "get_central failing_backend config = Inl ()"
    by blast
  have u: "self_central started_unit = Some example_central"
    "self_central scheduled_unit = Some example_central"
    "self_instance_name started_unit = PStr ''xxx''"
    "self_instance_name scheduled_unit = PStr ''xxx''"
    "self_scheduler scheduled_unit = Some example_scheduler"
    "name example_central = ''xxx''"
    by (simp_all add: started_unit_def scheduled_unit_def example_unit_def example_central_def)
  show ?thesis
    using backend_failures_propagate [where B = failing_backend and self = example_unit
        and config = config and x = "()" and cu = scheduled_unit and c = example_central
        and st = "\<lambda>r. scheduled_unit" and s = example_scheduler and now = "0::nat"
        and outcome = None]
      backend_failures_propagate [where B = failing_backend and self = started_unit
        and config = config and x = "()" and cu = scheduled_unit and c = example_central
        and st = "\<lambda>r. scheduled_unit" and s = example_scheduler and now = "0::nat"
        and outcome = None]
      config u
    by simp
qed

section \<open>The awaited backend calls\<close>

text \<open>
  Claim C4 says that start, stop and fetch are the only backend coroutines the adapter
  awaits. On the code \<open>_async_create_central\<close> awaits \<^verbatim>\<open>get_central()\<close>: on the example
  configuration its awaited calls are exactly that one, which is none of start, stop and
  the fetches.
\<close>

theorem awaits_get_central_counterexample:
  "awaited (fst (async_create_central example_backend example_unit)) = [GetCentral]
   \<and> \<not> set (awaited (fst (async_create_central example_backend example_unit)))
         \<subseteq> {Start, Stop, FetchSysvarData, FetchProgramData, RefreshEntityData}"
  by (simp add: example_create_central)

lemma awaited_create_central:
  "awaited (fst (async_create_central B self)) \<in> {[], [GetCentral]}"
  by (simp add: async_create_central_def split: sum.splits)

lemma awaited_base_init:
  "awaited (fst (BaseControlUnit_async_init_central B self)) \<in> {[], [GetCentral]}"
  using awaited_create_central [of B self]
  by (auto simp: BaseControlUnit_async_init_central_def split: prod.splits sum.splits)

lemma awaited_unit_init:
  "awaited (fst (ControlUnit_async_init_central B cu)) \<in> {[], [GetCentral]}"
  using awaited_base_init [of B cu]
  by (auto simp: ControlUnit_async_init_central_def split: prod.splits sum.splits option.splits)

lemma awaited_get_control_unit:
  "awaited (fst (async_get_control_unit B cc)) \<in> {[], [GetCentral]}"
proof (cases "ControlUnit_init cc :: 'a error + ControlUnit")
  case (Inl e)
  then show ?thesis by (simp add: async_get_control_unit_def)
next
  case (Inr u)
  then show ?thesis
    using awaited_unit_init [of B u]
    by (auto simp: async_get_control_unit_def split: prod.splits sum.splits)
qed

text \<open>
  Claim C4, as amended. In every run of every operation of the adapter the awaited backend
  coroutines are among get_central, start, stop, the hub's two fetches and the master
  refresh, and each operation awaits only its own: creating or initialising the central
  unit awaits at most get_central, starting at most start, stopping at most stop,
  \<open>_async_fetch_data\<close> the system-variable fetch and then the program fetch, the on-demand
  fetch at most the system-variable fetch, \<open>_async_fetch_master_data\<close> at most the master
  refresh, and \<open>stop_central\<close> nothing.
\<close>

theorem awaited_backend_calls:
  fixes B :: "'x backend" and start stop outcome outcome' :: "'x option"
  shows
  "awaited (fst (async_create_central B self)) \<in> {[], [GetCentral]}
   \<and> awaited (fst (BaseControlUnit_async_init_central B self)) \<in> {[], [GetCentral]}
   \<and> awaited (fst (ControlUnit_async_init_central B cu)) \<in> {[], [GetCentral]}
   \<and> awaited (fst (async_get_control_unit B cc)) \<in> {[], [GetCentral]}
   \<and> awaited (fst (async_start_central start self)) \<in> {[], [Start]}
   \<and> awaited (fst (stop_central self :: event list \<times> ('x error + unit))) = []
   \<and> awaited (fst (BaseControlUnit_async_stop_central stop self)) \<in> {[], [Stop]}
   \<and> awaited (fst (ControlUnit_async_stop_central stop cu)) \<in> {[], [Stop]}
   \<and> awaited (fst (async_fetch_data st s now outcome outcome'))
        \<in> {[], [FetchSysvarData], [FetchSysvarData, FetchProgramData]}
   \<and> awaited (fst (async_fetch_sysvars st s outcome)) \<in> {[], [FetchSysvarData]}
   \<and> awaited (fst (async_fetch_master_data st s now outcome)) \<in> {[], [RefreshEntityData]}
   \<and> awaited (fst (async_fetch_all_system_variables st cu outcome))
        \<in> {[], [FetchSysvarData]}"
proof -
  have a: "awaited (fst (async_start_central start self)) \<in> {[], [Start]}"
    by (simp add: async_start_central_def split: option.splits)
  have b: "awaited (fst (stop_central self :: event list \<times> ('x error + unit))) = []"
    by (simp add: stop_central_def)
  have c: "awaited (fst (BaseControlUnit_async_stop_central stop self)) \<in> {[], [Stop]}" for self :: "'c BaseControlUnit_scheme"
    by (simp add: BaseControlUnit_async_stop_central_def split: option.splits)
  have d: "awaited (fst (ControlUnit_async_stop_central stop cu)) \<in> {[], [Stop]}"
    using c [of cu]
    by (auto simp: ControlUnit_async_stop_central_def de_init_def split: option.splits prod.splits)
  have e: "awaited (fst (async_fetch_data st s now outcome outcome'))
        \<in> {[], [FetchSysvarData], [FetchSysvarData, FetchProgramData]}"
    by (simp add: async_fetch_data_def split: option.splits sum.splits)
  have f: "awaited (fst (async_fetch_sysvars st s outcome)) \<in> {[], [FetchSysvarData]}" for s
    by (simp add: async_fetch_sysvars_def split: option.splits sum.splits)
  have g: "awaited (fst (async_fetch_master_data st s now outcome)) \<in> {[], [RefreshEntityData]}"
    by (simp add: async_fetch_master_data_def split: option.splits sum.splits)
  have h: "awaited (fst (async_fetch_all_system_variables st cu outcome))
        \<in> {[], [FetchSysvarData]}"
    using f by (simp add: async_fetch_all_system_variables_def split: option.splits)
  show ?thesis
    using awaited_create_central [of B self] awaited_base_init [of B self]
      awaited_unit_init [of B cu] awaited_get_control_unit [of B cc] a b c [of self] d e f [of s] g h
    by blast
qed

section \<open>The on-demand fetch\<close>

text \<open>
  The operations of a control unit keep what \<open>scheduler_has_central\<close> rests on: a control
  unit starts without a scheduler, no operation changes the scheduler, and no operation
  takes a central unit away.
\<close>

lemma scheduler_and_central_kept:
  fixes B :: "'x backend" and stop :: "'x option"
  shows
  "((ControlUnit_init cc :: 'x error + ControlUnit) = Inr u0 \<longrightarrow> self_scheduler u0 = None)
   \<and> (ControlUnit_async_init_central B u = (evs, r, u') \<longrightarrow>
        self_scheduler u' = self_scheduler u
        \<and> (self_central u \<noteq> None \<longrightarrow> self_central u' \<noteq> None))
   \<and> self_scheduler (snd (snd (ControlUnit_async_stop_central stop u))) = self_scheduler u
   \<and> self_central (snd (snd (ControlUnit_async_stop_central stop u))) = self_central u
   \<and> self_scheduler (async_add_hm_entity k e u) = self_scheduler u
   \<and> self_central (async_add_hm_entity k e u) = self_central u
   \<and> self_scheduler (async_add_hm_hub_entity k h u) = self_scheduler u
   \<and> self_central (async_add_hm_hub_entity k h u) = self_central u
   \<and> self_scheduler (snd (async_remove_hm_entity k u :: ('x error + unit) \<times> ControlUnit))
        = self_scheduler u
   \<and> self_central (snd (async_remove_hm_entity k u :: ('x error + unit) \<times> ControlUnit))
        = self_central u
   \<and> self_scheduler (snd (async_remove_hm_hub_entity k u :: ('x error + unit) \<times> ControlUnit))
        = self_scheduler u
   \<and> self_central (snd (async_remove_hm_hub_entity k u :: ('x error + unit) \<times> ControlUnit))
        = self_central u"
proof -
  have a: "(ControlUnit_init cc :: 'x error + ControlUnit) = Inr u0 \<longrightarrow> self_scheduler u0 = None"
    by (auto simp: ControlUnit_init_def BaseControlUnit_init_def bind_result_def
        BaseControlUnit.defs ControlUnit.defs split: sum.splits)
  have b: "ControlUnit_async_init_central B u = (evs, r, u') \<longrightarrow>
        self_scheduler u' = self_scheduler u
        \<and> (self_central u \<noteq> None \<longrightarrow> self_central u' \<noteq> None)"
    by (auto simp: ControlUnit_async_init_central_def BaseControlUnit_async_init_central_def
        split: prod.splits sum.splits option.splits)
  have c: "self_scheduler (snd (snd (ControlUnit_async_stop_central stop u))) = self_scheduler u
     \<and> self_central (snd (snd (ControlUnit_async_stop_central stop u))) = self_central u"
    by (auto simp: ControlUnit_async_stop_central_def de_init_def
        split: prod.splits option.splits)
  have d: "self_scheduler (async_add_hm_entity k e u) = self_scheduler u
     \<and> self_central (async_add_hm_entity k e u) = self_central u
     \<and> self_scheduler (async_add_hm_hub_entity k h u) = self_scheduler u
     \<and> self_central (async_add_hm_hub_entity k h u) = self_central u"
    by (simp add: async_add_hm_entity_def async_add_hm_hub_entity_def)
  have e: "self_scheduler (snd (async_remove_hm_entity k u :: ('x error + unit) \<times> ControlUnit))
        = self_scheduler u
   \<and> self_central (snd (async_remove_hm_entity k u :: ('x error + unit) \<times> ControlUnit))
        = self_central u
   \<and> self_scheduler (snd (async_remove_hm_hub_entity k u :: ('x error + unit) \<times> ControlUnit))
        = self_scheduler u
   \<and> self_central (snd (async_remove_hm_hub_entity k u :: ('x error + unit) \<times> ControlUnit))
        = self_central u"
    by (simp add: async_remove_hm_entity_def async_remove_hm_hub_entity_def
        split: option.splits)
  from a b c d e show ?thesis by blast
qed

text \<open>
  Claim C6. The on-demand fetch calls the backend's system-variable fetch exactly when the
  control unit has a scheduler. With a scheduler it is the scheduler's
  \<open>async_fetch_sysvars\<close>, which awaits the hub's system-variable fetch exactly once and
  ends as that fetch ends; without a scheduler it writes one debug record, awaits nothing
  and returns. The control unit is one a run can produce: where it holds a scheduler, the
  scheduler's control unit has a central unit.
\<close>

theorem on_demand_fetch_exactly_with_scheduler:
  fixes outcome :: "'x option"
  assumes "scheduler_has_central st self"
  shows
  "(FetchSysvarData \<in> set (awaited (fst (async_fetch_all_system_variables st self outcome))))
      = (self_scheduler self \<noteq> None)
   \<and> awaited (fst (async_fetch_all_system_variables st self outcome))
      = (if self_scheduler self = None then [] else [FetchSysvarData])
   \<and> (self_scheduler self = None \<longrightarrow>
        async_fetch_all_system_variables st self outcome =
          ([Log DEBUG ''Hub scheduler for %s is not initialized'' [self_instance_name self]],
           Inr ()))
   \<and> (\<forall>s. self_scheduler self = Some s \<longrightarrow>
        async_fetch_sysvars st s outcome = async_fetch_all_system_variables st self outcome
        \<and> awaited (fst (async_fetch_sysvars st s outcome)) = [FetchSysvarData]
        \<and> snd (async_fetch_all_system_variables st self outcome) =
            (case outcome of None \<Rightarrow> Inr () | Some x \<Rightarrow> Inl (BackendFailure x)))"
  using assms
  by (auto simp: scheduler_has_central_def async_fetch_all_system_variables_def
      async_fetch_sysvars_def central_def split: option.splits)

theorem on_demand_fetch_exactly_with_scheduler_witness:
  "scheduler_has_central (\<lambda>r. scheduled_unit) scheduled_unit
   \<and> self_scheduler scheduled_unit = Some example_scheduler
   \<and> awaited (fst (async_fetch_all_system_variables (\<lambda>r. scheduled_unit) scheduled_unit
        (None :: unit option))) = [FetchSysvarData]
   \<and> snd (async_fetch_all_system_variables (\<lambda>r. scheduled_unit) scheduled_unit
        (None :: unit option)) = Inr ()
   \<and> scheduler_has_central (\<lambda>r. example_unit) example_unit
   \<and> self_scheduler example_unit = None
   \<and> async_fetch_all_system_variables (\<lambda>r. example_unit) example_unit (None :: unit option) =
       ([Log DEBUG ''Hub scheduler for %s is not initialized'' [PStr ''xxx'']], Inr ())
   \<and> awaited (fst (async_fetch_all_system_variables (\<lambda>r. example_unit) example_unit
        (None :: unit option))) = []"
proof -
  have h1: "scheduler_has_central (\<lambda>r. scheduled_unit) scheduled_unit"
    by (simp add: scheduler_has_central_def scheduled_unit_def started_unit_def
        example_unit_def)
  have h2: "scheduler_has_central (\<lambda>r. example_unit) example_unit"
    by (simp add: scheduler_has_central_def example_unit_def)
  have u: "self_scheduler scheduled_unit = Some example_scheduler"
    "self_scheduler example_unit = None"
    "self_instance_name example_unit = PStr ''xxx''"
    by (simp_all add: scheduled_unit_def started_unit_def example_unit_def)
  show ?thesis
    using on_demand_fetch_exactly_with_scheduler [OF h1, where outcome = "None :: unit option"]
      on_demand_fetch_exactly_with_scheduler [OF h2, where outcome = "None :: unit option"]
      h1 h2 u
    by simp
qed

section \<open>Forwarding the configuration\<close>

lemma interface_config_result:
  "(interface_config inst n v :: 'x error + InterfaceConfig) = Inr ic \<Longrightarrow>
     \<exists>idict p. v = PDict idict \<and> map_of idict ATTR_PORT = Some p
       \<and> ic = \<lparr>arg_central_name = inst, arg_interface = n, arg_port = p,
                arg_path = py_get idict ATTR_PATH\<rparr>"
  by (cases v) (auto simp: bind_result_def py_getitem_def split: option.splits)

lemma interface_loop_result:
  "(interface_loop inst ifs ns acc :: 'x error + InterfaceConfig set) = Inr S \<Longrightarrow>
     (\<forall>n \<in> set ns. \<exists>idict p. map_of ifs n = Some (PDict idict)
                         \<and> map_of idict ATTR_PORT = Some p)
     \<and> S = acc \<union> {ic. \<exists>n \<in> set ns. \<exists>idict p. map_of ifs n = Some (PDict idict)
                  \<and> map_of idict ATTR_PORT = Some p
                  \<and> ic = \<lparr>arg_central_name = inst, arg_interface = n, arg_port = p,
                           arg_path = py_get idict ATTR_PATH\<rparr>}"
proof (induction ns arbitrary: acc)
  case Nil
  then show ?case by simp
next
  case (Cons n ns)
  from Cons.prems obtain v where v: "map_of ifs n = Some v"
    by (auto simp: bind_result_def py_getitem_def split: option.splits)
  with Cons.prems obtain ic where
    ic: "(interface_config inst n v :: 'x error + InterfaceConfig) = Inr ic"
    and rest: "(interface_loop inst ifs ns (insert ic acc) :: 'x error + InterfaceConfig set) = Inr S"
    by (auto simp: bind_result_def py_getitem_def split: sum.splits)
  from interface_config_result [OF ic] obtain idict p where
    d: "v = PDict idict" "map_of idict ATTR_PORT = Some p"
       "ic = \<lparr>arg_central_name = inst, arg_interface = n, arg_port = p,
              arg_path = py_get idict ATTR_PATH\<rparr>"
    by blast
  from Cons.IH [OF rest] have
    ih1: "\<forall>n \<in> set ns. \<exists>idict p. map_of ifs n = Some (PDict idict)
                         \<and> map_of idict ATTR_PORT = Some p"
    and ih2: "S = insert ic acc \<union> {ic. \<exists>n \<in> set ns. \<exists>idict p. map_of ifs n = Some (PDict idict)
                  \<and> map_of idict ATTR_PORT = Some p
                  \<and> ic = \<lparr>arg_central_name = inst, arg_interface = n, arg_port = p,
                           arg_path = py_get idict ATTR_PATH\<rparr>}"
    by blast+
  have a: "\<forall>m \<in> set (n # ns). \<exists>idict p. map_of ifs m = Some (PDict idict)
                         \<and> map_of idict ATTR_PORT = Some p"
    using ih1 v d by auto
  have b: "S = acc \<union> {ic. \<exists>m \<in> set (n # ns). \<exists>idict p. map_of ifs m = Some (PDict idict)
                  \<and> map_of idict ATTR_PORT = Some p
                  \<and> ic = \<lparr>arg_central_name = inst, arg_interface = m, arg_port = p,
                           arg_path = py_get idict ATTR_PATH\<rparr>}"
    unfolding ih2 using v d by auto
  from a b show ?case by blast
qed

lemma interface_configs_of_result:
  assumes "(interface_configs_of inst v :: 'x error + InterfaceConfig set) = Inr S"
  shows "v = PStr [] \<and> S = {}
     \<or> (\<exists>ifs. v = PDict ifs
          \<and> (\<forall>n \<in> fst ` set ifs. \<exists>idict p. map_of ifs n = Some (PDict idict)
                         \<and> map_of idict ATTR_PORT = Some p)
          \<and> S = {ic. \<exists>n idict p. map_of ifs n = Some (PDict idict)
                  \<and> map_of idict ATTR_PORT = Some p
                  \<and> ic = \<lparr>arg_central_name = inst, arg_interface = n, arg_port = p,
                           arg_path = py_get idict ATTR_PATH\<rparr>})"
proof (cases v)
  case (PDict ifs)
  with assms have l: "(interface_loop inst ifs (map fst ifs) {} :: 'x error + InterfaceConfig set) = Inr S"
    by simp
  from interface_loop_result [OF l] have
    a: "\<forall>n \<in> fst ` set ifs. \<exists>idict p. map_of ifs n = Some (PDict idict)
                         \<and> map_of idict ATTR_PORT = Some p"
    and b: "S = {ic. \<exists>n \<in> fst ` set ifs. \<exists>idict p. map_of ifs n = Some (PDict idict)
                  \<and> map_of idict ATTR_PORT = Some p
                  \<and> ic = \<lparr>arg_central_name = inst, arg_interface = n, arg_port = p,
                           arg_path = py_get idict ATTR_PATH\<rparr>}"
    by simp_all
  have "S = {ic. \<exists>n idict p. map_of ifs n = Some (PDict idict)
                  \<and> map_of idict ATTR_PORT = Some p
                  \<and> ic = \<lparr>arg_central_name = inst, arg_interface = n, arg_port = p,
                           arg_path = py_get idict ATTR_PATH\<rparr>}"
  proof -
    have key: "n \<in> fst ` set ifs" if "map_of ifs n = Some x" for n x
      using that map_of_eq_None_iff [of ifs n] by auto
    show ?thesis unfolding b using key by blast
  qed
  with a PDict show ?thesis by blast
qed (use assms in \<open>auto split: if_splits\<close>)

lemma ControlUnit_init_fields:
  assumes "(ControlUnit_init cc :: 'x error + ControlUnit) = Inr self"
  shows "map_of (data cc) ATTR_INSTANCE_NAME = Some (self_instance_name self)
     \<and> self_config_data self = data cc
     \<and> self_entry_id self = entry_id cc
     \<and> self_default_callback_port self = default_callback_port cc"
  using assms
  by (auto simp: ControlUnit_init_def BaseControlUnit_init_def bind_result_def py_getitem_def
      BaseControlUnit.defs ControlUnit.defs split: option.splits)

lemma create_central_config_fields:
  fixes B :: "'x backend"
  assumes "create_central_config B self = Inr config"
  shows "\<exists>v S. map_of (self_config_data self) ATTR_INTERFACE = Some v
       \<and> interface_configs_of (self_instance_name self) v = (Inr S :: 'x error + _)
       \<and> arg_interface_configs config = S
       \<and> arg_name config = self_instance_name self
       \<and> arg_storage_folder config = ''hahm-mqtt''
       \<and> map_of (self_config_data self) ATTR_HOST = Some (arg_host config)
       \<and> map_of (self_config_data self) ATTR_USERNAME = Some (arg_username config)
       \<and> map_of (self_config_data self) ATTR_PASSWORD = Some (arg_password config)
       \<and> map_of (self_config_data self) ATTR_TLS = Some (arg_tls config)
       \<and> map_of (self_config_data self) ATTR_VERIFY_TLS = Some (arg_verify_tls config)
       \<and> map_of (self_config_data self) ATTR_JSON_PORT = Some (arg_json_port config)
       \<and> arg_central_id config = drop (length (self_entry_id self) - 10) (self_entry_id self)
       \<and> arg_default_callback_port config = self_default_callback_port self
       \<and> arg_callback_host config =
            (if py_eq_str (py_get (self_config_data self) ATTR_CALLBACK_HOST) (IP_ANY_V4 B)
             then PNone else py_get (self_config_data self) ATTR_CALLBACK_HOST)
       \<and> arg_callback_port config =
            (if py_eq_int (py_get (self_config_data self) ATTR_CALLBACK_PORT) (PORT_ANY B)
             then PNone else py_get (self_config_data self) ATTR_CALLBACK_PORT)"
  using assms
  by (auto simp: create_central_config_def bind_result_def py_getitem_def Let_def
      split: option.splits sum.splits)

text \<open>
  Claim C1, as amended. When a control unit has been built from a configuration and the
  \<^verbatim>\<open>CentralConfig\<close> constructor is reached, the values under instance_name, host, username,
  password, tls, verify_tls and json_port are the constructor's arguments, unchanged; the
  callback host is the value under callback_host (\<^verbatim>\<open>None\<close> when the key is missing),
  except that a value equal to \<open>IP_ANY_V4\<close> is replaced by \<^verbatim>\<open>None\<close>; the callback port
  is the value under callback_port, except that a value equal to \<open>PORT_ANY\<close> is replaced
  by \<^verbatim>\<open>None\<close>; and the interface configurations are exactly one for each interface entry,
  with the entry's name, its port unchanged and its path (\<^verbatim>\<open>None\<close> when the entry has
  none), every entry being a dictionary with a port.
\<close>

theorem config_forwarded:
  fixes B :: "'x backend"
  assumes "(ControlUnit_init cc :: 'x error + ControlUnit) = Inr self"
    and "create_central_config B self = Inr config"
  shows "map_of (data cc) ATTR_INSTANCE_NAME = Some (arg_name config)
     \<and> map_of (data cc) ATTR_HOST = Some (arg_host config)
     \<and> map_of (data cc) ATTR_USERNAME = Some (arg_username config)
     \<and> map_of (data cc) ATTR_PASSWORD = Some (arg_password config)
     \<and> map_of (data cc) ATTR_TLS = Some (arg_tls config)
     \<and> map_of (data cc) ATTR_VERIFY_TLS = Some (arg_verify_tls config)
     \<and> map_of (data cc) ATTR_JSON_PORT = Some (arg_json_port config)
     \<and> arg_callback_host config =
          (if py_eq_str (py_get (data cc) ATTR_CALLBACK_HOST) (IP_ANY_V4 B)
           then PNone else py_get (data cc) ATTR_CALLBACK_HOST)
     \<and> arg_callback_port config =
          (if py_eq_int (py_get (data cc) ATTR_CALLBACK_PORT) (PORT_ANY B)
           then PNone else py_get (data cc) ATTR_CALLBACK_PORT)
     \<and> arg_default_callback_port config = default_callback_port cc
     \<and> arg_central_id config = drop (length (entry_id cc) - 10) (entry_id cc)
     \<and> arg_storage_folder config = ''hahm-mqtt''
     \<and> (map_of (data cc) ATTR_INTERFACE = Some (PStr []) \<and> arg_interface_configs config = {}
        \<or> (\<exists>interfaces. map_of (data cc) ATTR_INTERFACE = Some (PDict interfaces)
              \<and> (\<forall>n \<in> fst ` set interfaces.
                    \<exists>interface port. map_of interfaces n = Some (PDict interface)
                       \<and> map_of interface ATTR_PORT = Some port)
              \<and> arg_interface_configs config =
                  {ic. \<exists>n interface port. map_of interfaces n = Some (PDict interface)
                     \<and> map_of interface ATTR_PORT = Some port
                     \<and> ic = \<lparr>arg_central_name = arg_name config, arg_interface = n,
                              arg_port = port, arg_path = py_get interface ATTR_PATH\<rparr>}))"
proof -
  from ControlUnit_init_fields [OF assms(1)] have u:
    "map_of (data cc) ATTR_INSTANCE_NAME = Some (self_instance_name self)"
    "self_config_data self = data cc" "self_entry_id self = entry_id cc"
    "self_default_callback_port self = default_callback_port cc"
    by simp_all
  from create_central_config_fields [OF assms(2)] obtain v S where c:
    "map_of (self_config_data self) ATTR_INTERFACE = Some v"
    "interface_configs_of (self_instance_name self) v = (Inr S :: 'x error + _)"
    "arg_interface_configs config = S"
    "arg_name config = self_instance_name self"
    "arg_storage_folder config = ''hahm-mqtt''"
    "map_of (self_config_data self) ATTR_HOST = Some (arg_host config)"
    "map_of (self_config_data self) ATTR_USERNAME = Some (arg_username config)"
    "map_of (self_config_data self) ATTR_PASSWORD = Some (arg_password config)"
    "map_of (self_config_data self) ATTR_TLS = Some (arg_tls config)"
    "map_of (self_config_data self) ATTR_VERIFY_TLS = Some (arg_verify_tls config)"
    "map_of (self_config_data self) ATTR_JSON_PORT = Some (arg_json_port config)"
    "arg_central_id config = drop (length (self_entry_id self) - 10) (self_entry_id self)"
    "arg_default_callback_port config = self_default_callback_port self"
    "arg_callback_host config =
            (if py_eq_str (py_get (self_config_data self) ATTR_CALLBACK_HOST) (IP_ANY_V4 B)
             then PNone else py_get (self_config_data self) ATTR_CALLBACK_HOST)"
    "arg_callback_port config =
            (if py_eq_int (py_get (self_config_data self) ATTR_CALLBACK_PORT) (PORT_ANY B)
             then PNone else py_get (self_config_data self) ATTR_CALLBACK_PORT)"
    by blast
  have i: "map_of (data cc) ATTR_INTERFACE = Some (PStr []) \<and> arg_interface_configs config = {}
        \<or> (\<exists>interfaces. map_of (data cc) ATTR_INTERFACE = Some (PDict interfaces)
              \<and> (\<forall>n \<in> fst ` set interfaces.
                    \<exists>interface port. map_of interfaces n = Some (PDict interface)
                       \<and> map_of interface ATTR_PORT = Some port)
              \<and> arg_interface_configs config =
                  {ic. \<exists>n interface port. map_of interfaces n = Some (PDict interface)
                     \<and> map_of interface ATTR_PORT = Some port
                     \<and> ic = \<lparr>arg_central_name = arg_name config, arg_interface = n,
                              arg_port = port, arg_path = py_get interface ATTR_PATH\<rparr>})"
    using interface_configs_of_result [OF c(2)] c(1) c(3) c(4) u(2) by auto
  show ?thesis
    using u c(4-15) i by simp
qed

theorem config_forwarded_witness:
  "map_of (data example_config) ATTR_HOST = Some (arg_host example_central_config_args)
   \<and> arg_host example_central_config_args = PStr ''xxx''
   \<and> arg_callback_host example_central_config_args = PNone
   \<and> arg_callback_port example_central_config_args = PNone
   \<and> arg_central_id example_central_config_args = ''1234567890''
   \<and> (\<exists>interfaces. map_of (data example_config) ATTR_INTERFACE = Some (PDict interfaces)
         \<and> arg_interface_configs example_central_config_args =
             {ic. \<exists>n interface port. map_of interfaces n = Some (PDict interface)
                \<and> map_of interface ATTR_PORT = Some port
                \<and> ic = \<lparr>arg_central_name = arg_name example_central_config_args,
                         arg_interface = n, arg_port = port,
                         arg_path = py_get interface ATTR_PATH\<rparr>})"
proof -
  have i: "map_of (data example_config) ATTR_INTERFACE \<noteq> Some (PStr [])"
    by (simp add: example_config_def example_config_with_def ATTR_INTERFACE_def)
  have v: "arg_host example_central_config_args = PStr ''xxx''"
    "arg_central_id example_central_config_args = ''1234567890''"
    "py_get (data example_config) ATTR_CALLBACK_HOST = PNone"
    "py_get (data example_config) ATTR_CALLBACK_PORT = PNone"
    "entry_id example_config = ''1234567890''"
    by (simp_all add: example_central_config_args_def example_config_def
        example_config_with_def py_get_def ATTR_CALLBACK_HOST_def ATTR_CALLBACK_PORT_def)
  from config_forwarded [OF example_unit_init example_central_config] i v
  show ?thesis by auto
qed

text \<open>
  Claim C1 says that every field of the configuration is the constructor's argument,
  unchanged. On the code the configuration of example.py with the callback host
  \<^verbatim>\<open>0.0.0.0\<close> and the callback port 0, on a backend whose \<open>IP_ANY_V4\<close> and
  \<open>PORT_ANY\<close> are these two values, is accepted, and the constructor gets \<^verbatim>\<open>None\<close>
  for both.
\<close>

theorem config_forwarded_unchanged_counterexample:
  "map_of (data (example_config_with (PStr ''0.0.0.0'') (PInt 0))) ATTR_CALLBACK_HOST
     = Some (PStr ''0.0.0.0'')
   \<and> map_of (data (example_config_with (PStr ''0.0.0.0'') (PInt 0))) ATTR_CALLBACK_PORT
     = Some (PInt 0)
   \<and> (case (ControlUnit_init (example_config_with (PStr ''0.0.0.0'') (PInt 0))
              :: unit error + ControlUnit) of
        Inl e \<Rightarrow> False
      | Inr self \<Rightarrow>
          (case create_central_config example_backend self of
             Inl e \<Rightarrow> False
           | Inr config \<Rightarrow>
               arg_callback_host config = PNone \<and> arg_callback_host config \<noteq> PStr ''0.0.0.0''
               \<and> arg_callback_port config = PNone \<and> arg_callback_port config \<noteq> PInt 0))"
  by (simp add: ControlUnit_init_def BaseControlUnit_init_def create_central_config_def
      example_config_with_def example_backend_def bind_result_def py_getitem_def py_get_def
      ATTR_INSTANCE_NAME_def ATTR_INTERFACE_def ATTR_HOST_def ATTR_USERNAME_def
      ATTR_PASSWORD_def ATTR_TLS_def ATTR_VERIFY_TLS_def ATTR_JSON_PORT_def
      ATTR_CALLBACK_HOST_def ATTR_CALLBACK_PORT_def ATTR_PORT_def ATTR_PATH_def
      BaseControlUnit.defs ControlUnit.defs)

end
